theory Spec2Isabelle
  imports Complex_Main "HOL-Library.AList"
begin

section \<open>Exceptions, library calls and the program state\<close>

text \<open>
  The script \<^verbatim>\<open>enviroSendData.py\<close> is a single loop around vendor libraries. The
  libraries are not part of the repository; each of their calls is an oracle of the
  environment \<open>env\<close>: the outcome of the \<open>k\<close>-th call of a library function is a value
  or a raised exception. Every call the program makes is appended to the history
  \<open>calls\<close> of the state, so that the number and the order of calls can be stated.

  Scope of the model. \<open>exn\<close> holds the exceptions the program names or lets through,
  among them \<^verbatim>\<open>KeyboardInterrupt\<close> and \<^verbatim>\<open>SystemExit\<close>, which a library call raises when
  the process is interrupted or told to exit.

  Floats. A float that the program formats (temperature, pressure, humidity) is a
  \<open>pyfloat\<close>: a finite value, the negative zero, an infinity or a NaN, with the float
  operations \<open>ieee_sub\<close> and \<open>ieee_div\<close> of the environment. Clock readings, gas values and
  the CPU temperature are finite, and neither a comparison with a threshold nor \<^verbatim>\<open>int\<close>
  sees the sign of a zero: they are the real number they denote, with the float
  operations \<open>float_sub\<close> and \<open>float_div\<close> of the environment. A finite float is a real
  number in both, and the operations are parameters, so no theorem depends on how they
  round.

  \<^verbatim>\<open>pms5003.reset()\<close>, \<^verbatim>\<open>time.time()\<close>, \<^verbatim>\<open>datetime.now()\<close> and the
  \<^verbatim>\<open>logging\<close> calls return normally.
\<close>

datatype exn =
    ReadTimeoutError string
  | ChecksumMismatchError string
  | ConnectionError string
  | ConnectTimeout string
  | ReadTimeout string
  | Timeout string
  | RequestException string
  | TypeError string
  | KeyError string
  | OtherException string
  | KeyboardInterrupt string
  | SystemExit string

text \<open>\<^verbatim>\<open>str(e)\<close>, as used by \<^verbatim>\<open>'{}'.format(e)\<close>.\<close>

fun exn_str :: "exn \<Rightarrow> string" where
  "exn_str (ReadTimeoutError m) = m"
| "exn_str (ChecksumMismatchError m) = m"
| "exn_str (ConnectionError m) = m"
| "exn_str (ConnectTimeout m) = m"
| "exn_str (ReadTimeout m) = m"
| "exn_str (Timeout m) = m"
| "exn_str (RequestException m) = m"
| "exn_str (TypeError m) = m"
| "exn_str (KeyError k) = [CHR 0x27] @ k @ [CHR 0x27]"
| "exn_str (OtherException m) = m"
| "exn_str (KeyboardInterrupt m) = m"
| "exn_str (SystemExit m) = m"

text \<open>
  \<^verbatim>\<open>KeyboardInterrupt\<close> and \<^verbatim>\<open>SystemExit\<close> derive from \<^verbatim>\<open>BaseException\<close> only; every other
  exception here derives from \<^verbatim>\<open>Exception\<close>, which is what \<^verbatim>\<open>except Exception\<close> catches.
\<close>

fun is_Exception :: "exn \<Rightarrow> bool" where
  "is_Exception (KeyboardInterrupt m) = False"
| "is_Exception (SystemExit m) = False"
| "is_Exception e = True"

text \<open>
  The class hierarchy of \<^verbatim>\<open>requests.exceptions\<close>: \<^verbatim>\<open>ConnectTimeout\<close> derives from
  both \<^verbatim>\<open>ConnectionError\<close> and \<^verbatim>\<open>Timeout\<close>, \<^verbatim>\<open>ReadTimeout\<close> from \<^verbatim>\<open>Timeout\<close>, and all
  of them from \<^verbatim>\<open>RequestException\<close>.
\<close>

fun is_ConnectionError :: "exn \<Rightarrow> bool" where
  "is_ConnectionError (ConnectionError m) = True"
| "is_ConnectionError (ConnectTimeout m) = True"
| "is_ConnectionError e = False"

fun is_Timeout :: "exn \<Rightarrow> bool" where
  "is_Timeout (Timeout m) = True"
| "is_Timeout (ConnectTimeout m) = True"
| "is_Timeout (ReadTimeout m) = True"
| "is_Timeout e = False"

fun is_RequestException :: "exn \<Rightarrow> bool" where
  "is_RequestException (RequestException m) = True"
| "is_RequestException (ConnectionError m) = True"
| "is_RequestException (ConnectTimeout m) = True"
| "is_RequestException (ReadTimeout m) = True"
| "is_RequestException (Timeout m) = True"
| "is_RequestException e = False"

text \<open>The clause \<^verbatim>\<open>except(ReadTimeoutError, ChecksumMismatchError)\<close> of \<^verbatim>\<open>read_pm_values\<close>.\<close>

fun is_pms_transient :: "exn \<Rightarrow> bool" where
  "is_pms_transient (ReadTimeoutError m) = True"
| "is_pms_transient (ChecksumMismatchError m) = True"
| "is_pms_transient e = False"

text \<open>
  A Python float as \<^verbatim>\<open>format\<close> sees it: \<open>Float x\<close> is the finite value \<open>x\<close> (\<open>Float 0\<close> is
  \<^verbatim>\<open>0.0\<close>), \<open>NegZero\<close> is \<^verbatim>\<open>-0.0\<close>, \<open>Inf neg\<close> is the infinity of that sign.
\<close>

datatype pyfloat = Float real | NegZero | Inf bool | NaN




text \<open>A reading is a Python dict from field name to string, in insertion order.\<close>

type_synonym reading = "(string \<times> string) list"

record request =
  url :: string
  data :: reading
  content_type :: string
  timeout :: nat

record response =
  ok :: bool
  reason :: string

record gas_data =
  oxidising :: real
  reducing :: real
  nh3 :: real

record pm_data =
  pm1 :: nat
  pm25 :: nat
  pm10 :: nat

datatype lib =
    Time_time
  | Datetime_now
  | Thermal_zone
  | Bme280_get_temperature
  | Bme280_get_pressure
  | Bme280_get_humidity
  | Gas_read_all
  | Pms5003_read
  | Pms5003_reset

datatype level = INFO | WARNING

datatype message = Str string | Dict reading

datatype event =
    Lib lib
  | Requests_post request
  | Logging level message
  | Send_pm_data reading
  | Send_enviro_data reading

record env =
  API_URL :: "string option"
  time_time :: "nat \<Rightarrow> real"
  datetime_now :: "nat \<Rightarrow> string"
  thermal_zone :: "nat \<Rightarrow> exn + int"
  bme280_get_temperature :: "nat \<Rightarrow> exn + pyfloat"
  bme280_get_pressure :: "nat \<Rightarrow> exn + pyfloat"
  bme280_get_humidity :: "nat \<Rightarrow> exn + pyfloat"
  gas_read_all :: "nat \<Rightarrow> exn + gas_data"
  pms5003_read :: "nat \<Rightarrow> exn + pm_data"
  requests_post :: "nat \<Rightarrow> request \<Rightarrow> exn + response"
  float_sub :: "real \<Rightarrow> real \<Rightarrow> real"
  float_div :: "real \<Rightarrow> real \<Rightarrow> real"
  ieee_sub :: "pyfloat \<Rightarrow> pyfloat \<Rightarrow> pyfloat"
  ieee_div :: "pyfloat \<Rightarrow> real \<Rightarrow> pyfloat"

text \<open>The four module-level variables of the scheduler and the history of calls.\<close>

record state =
  time_since_update :: real
  update_time :: real
  time_since_update2 :: real
  update_time2 :: real
  calls :: "event list"

type_synonym 'a action = "state \<Rightarrow> (exn + 'a) \<times> state"

definition emit :: "event \<Rightarrow> state \<Rightarrow> state" where
  "emit ev s = s\<lparr>calls := calls s @ [ev]\<rparr>"

definition n_lib :: "lib \<Rightarrow> state \<Rightarrow> nat" where
  "n_lib l s = count_list (calls s) (Lib l)"

fun is_post :: "event \<Rightarrow> bool" where
  "is_post (Requests_post r) = True"
| "is_post ev = False"

definition n_posts :: "state \<Rightarrow> nat" where
  "n_posts s = length (filter is_post (calls s))"

text \<open>A library call: its outcome is the oracle's at the number of earlier calls.\<close>

definition lib_call :: "lib \<Rightarrow> (nat \<Rightarrow> exn + 'a) \<Rightarrow> 'a action" where
  "lib_call l f s = (f (n_lib l s), emit (Lib l) s)"

definition lib_total :: "lib \<Rightarrow> (nat \<Rightarrow> 'a) \<Rightarrow> 'a action" where
  "lib_total l f s = (Inr (f (n_lib l s)), emit (Lib l) s)"

definition logging :: "level \<Rightarrow> message \<Rightarrow> unit action" where
  "logging lv m s = (Inr (), emit (Logging lv m) s)"

text \<open>Sequencing: an exception of the first action skips the rest.\<close>

definition bind_exn :: "'a action \<Rightarrow> ('a \<Rightarrow> 'b action) \<Rightarrow> 'b action" where
  "bind_exn m f s = (case m s of (Inl e, s') \<Rightarrow> (Inl e, s') | (Inr a, s') \<Rightarrow> f a s')"

definition return_val :: "'a \<Rightarrow> 'a action" where
  "return_val a s = (Inr a, s)"

definition raise_exn :: "exn \<Rightarrow> 'a action" where
  "raise_exn e s = (Inl e, s)"

section \<open>Formatting\<close>

text \<open>\<^verbatim>\<open>str(n)\<close> for a non-negative integer, and for any integer.\<close>

fun str_nat :: "nat \<Rightarrow> string" where
  "str_nat n = (if n < 10 then [''0123456789'' ! n]
                else str_nat (n div 10) @ [''0123456789'' ! (n mod 10)])"

declare str_nat.simps [simp del]

definition str_int :: "int \<Rightarrow> string" where
  "str_int i = (if i < 0 then CHR ''-'' # str_nat (nat (- i)) else str_nat (nat i))"

text \<open>\<^verbatim>\<open>int(x)\<close> on a finite float: truncation toward zero.\<close>

definition py_int :: "real \<Rightarrow> int" where
  "py_int x = (if 0 \<le> x then \<lfloor>x\<rfloor> else \<lceil>x\<rceil>)"

text \<open>
  Rounding to the nearest integer, ties to even: how \<^verbatim>\<open>format\<close> rounds the exact value
  of a float to the requested number of decimals.
\<close>

definition round_half_even :: "real \<Rightarrow> int" where
  "round_half_even y =
     (let f = \<lfloor>y\<rfloor>; d = y - of_int f
      in if d < 1 / 2 then f
         else if 1 / 2 < d then f + 1
         else if even f then f else f + 1)"

text \<open>
  \<^verbatim>\<open>"{:05.2f}".format(x)\<close>. A finite value is written in fixed point with two decimals
  (\<open>fixed2\<close>, of its absolute value), an infinity as \<^verbatim>\<open>inf\<close>, a NaN as \<^verbatim>\<open>nan\<close>. The
  flag \<^verbatim>\<open>0\<close> pads with zeros between the sign and the rest up to the width 5; the sign
  is written when the sign bit is set, so also for \<^verbatim>\<open>-0.0\<close>.
\<close>

definition fixed2 :: "real \<Rightarrow> string" where
  "fixed2 m =
     (let q = nat (round_half_even (m * 100))
      in str_nat (q div 100) @ ''.'' @ [''0123456789'' ! (q mod 100 div 10),
                                         ''0123456789'' ! (q mod 10)])"

definition zero_pad5 :: "bool \<Rightarrow> string \<Rightarrow> string" where
  "zero_pad5 neg body =
     (let sgn = (if neg then ''-'' else '''')
      in sgn @ replicate (5 - length sgn - length body) CHR ''0'' @ body)"

fun format_05_2f :: "pyfloat \<Rightarrow> string" where
  "format_05_2f (Float x) = zero_pad5 (x < 0) (fixed2 \<bar>x\<bar>)"
| "format_05_2f NegZero = zero_pad5 True (fixed2 0)"
| "format_05_2f (Inf neg) = zero_pad5 neg ''inf''"
| "format_05_2f NaN = zero_pad5 False ''nan''"

section \<open>Sensor reader\<close>

definition comp_factor :: real where
  "comp_factor = 2.25"

text \<open>
  \<^verbatim>\<open>get_cpu_temperature\<close>: the oracle \<open>thermal_zone\<close> is the outcome of opening and reading
  the file, of \<^verbatim>\<open>int(temp)\<close> and of the conversion of that integer to a float for the
  division: an integer of millidegrees that a float can hold, or the exception raised
  (\<^verbatim>\<open>OverflowError\<close> for an integer too large).
\<close>

definition get_cpu_temperature :: "env \<Rightarrow> real action" where
  "get_cpu_temperature E =
     bind_exn (lib_call Thermal_zone (thermal_zone E)) (\<lambda>temp.
     return_val (float_div E (of_int temp) 1000))"

definition read_enviro_values :: "env \<Rightarrow> reading action" where
  "read_enviro_values E =
     bind_exn (get_cpu_temperature E) (\<lambda>cpu_temp.
     bind_exn (lib_call Bme280_get_temperature (bme280_get_temperature E)) (\<lambda>raw_temp.
     let comp_temp =
       ieee_sub E raw_temp (ieee_div E (ieee_sub E (Float cpu_temp) raw_temp) comp_factor) in
     bind_exn (lib_total Datetime_now (datetime_now E)) (\<lambda>paris_time.
     let values = AList.update ''date'' paris_time [];
         values = AList.update ''temperature'' (format_05_2f comp_temp) values in
     bind_exn (lib_call Bme280_get_pressure (bme280_get_pressure E)) (\<lambda>pressure.
     let values = AList.update ''pressure'' (format_05_2f pressure) values in
     bind_exn (lib_call Bme280_get_humidity (bme280_get_humidity E)) (\<lambda>humidity.
     let values = AList.update ''humidity'' (format_05_2f humidity) values in
     bind_exn (lib_call Gas_read_all (gas_read_all E)) (\<lambda>gas.
     let values = AList.update ''oxidising'' (str_int (py_int (float_div E (oxidising gas) 1000))) values;
         values = AList.update ''reducing'' (str_int (py_int (float_div E (reducing gas) 1000))) values;
         values = AList.update ''nh3'' (str_int (py_int (float_div E (nh3 gas) 1000))) values in
     return_val values))))))"

text \<open>The three assignments that follow a successful \<^verbatim>\<open>pms5003.read()\<close>.\<close>

definition store_pm :: "pm_data \<Rightarrow> reading \<Rightarrow> reading" where
  "store_pm pm_values values =
     AList.update ''pm10'' (str_nat (pm10 pm_values))
       (AList.update ''pm25'' (str_nat (pm25 pm_values))
         (AList.update ''pm1'' (str_nat (pm1 pm_values)) values))"

definition read_pm_values :: "env \<Rightarrow> reading action" where
  "read_pm_values E =
     bind_exn (lib_total Datetime_now (datetime_now E)) (\<lambda>paris_time.
     let values = AList.update ''date'' paris_time [] in
     (\<lambda>s. case lib_call Pms5003_read (pms5003_read E) s of
        (Inr pm_values, s1) \<Rightarrow> (Inr (store_pm pm_values values), s1)
      | (Inl e, s1) \<Rightarrow>
          if is_pms_transient e then
            bind_exn (logging INFO (Str ''Failed to read PMS5003. Reseting and retrying.'')) (\<lambda>_.
            bind_exn (lib_total Pms5003_reset (\<lambda>_. ())) (\<lambda>_.
            bind_exn (lib_call Pms5003_read (pms5003_read E)) (\<lambda>pm_values.
            return_val (store_pm pm_values values)))) s1
          else (Inl e, s1)))"

section \<open>Uploader\<close>

text \<open>\<^verbatim>\<open>values[k]\<close> raises \<^verbatim>\<open>KeyError\<close> on a missing key.\<close>

definition dict_get :: "reading \<Rightarrow> string \<Rightarrow> string action" where
  "dict_get values k =
     (case map_of values k of None \<Rightarrow> raise_exn (KeyError k) | Some v \<Rightarrow> return_val v)"

text \<open>
  \<^verbatim>\<open>API_URL + path\<close>: \<^verbatim>\<open>os.getenv\<close> gives \<^verbatim>\<open>None\<close> for an absent variable, and
  \<^verbatim>\<open>None + str\<close> raises \<^verbatim>\<open>TypeError\<close>.
\<close>

definition none_plus_str :: string where
  "none_plus_str = ''unsupported operand type(s) for +: '' @ [CHR 0x27] @ ''NoneType''
     @ [CHR 0x27] @ '' and '' @ [CHR 0x27] @ ''str'' @ [CHR 0x27]"

definition api_path :: "env \<Rightarrow> string \<Rightarrow> string action" where
  "api_path E path =
     (case API_URL E of None \<Rightarrow> raise_exn (TypeError none_plus_str)
      | Some base \<Rightarrow> return_val (base @ path))"

definition post :: "env \<Rightarrow> request \<Rightarrow> response action" where
  "post E r s = (requests_post E (n_posts s) r, emit (Requests_post r) s)"

text \<open>
  The arguments of \<^verbatim>\<open>requests.post\<close> are evaluated left to right, then the request is
  made. \<open>data\<close> is the dict given to \<^verbatim>\<open>json.dumps\<close>.
\<close>

definition enviro_request :: "env \<Rightarrow> reading \<Rightarrow> response action" where
  "enviro_request E values =
     bind_exn (api_path E ''/enviro-data'') (\<lambda>u.
     bind_exn (dict_get values ''date'') (\<lambda>v1.
     bind_exn (dict_get values ''temperature'') (\<lambda>v2.
     bind_exn (dict_get values ''pressure'') (\<lambda>v3.
     bind_exn (dict_get values ''humidity'') (\<lambda>v4.
     bind_exn (dict_get values ''oxidising'') (\<lambda>v5.
     bind_exn (dict_get values ''reducing'') (\<lambda>v6.
     bind_exn (dict_get values ''nh3'') (\<lambda>v7.
     post E \<lparr>url = u,
              data = [(''date'', v1), (''temperature'', v2), (''pressure'', v3),
                      (''humidity'', v4), (''oxidising'', v5), (''reducing'', v6),
                      (''nh3'', v7)],
              content_type = ''application/json'',
              timeout = 10\<rparr>))))))))"

definition pm_request :: "env \<Rightarrow> reading \<Rightarrow> response action" where
  "pm_request E values =
     bind_exn (api_path E ''/air-quality'') (\<lambda>u.
     bind_exn (dict_get values ''date'') (\<lambda>v1.
     bind_exn (dict_get values ''pm1'') (\<lambda>v2.
     bind_exn (dict_get values ''pm25'') (\<lambda>v3.
     bind_exn (dict_get values ''pm10'') (\<lambda>v4.
     post E \<lparr>url = u,
              data = [(''date'', v1), (''pm1'', v2), (''pm25'', v3), (''pm10'', v4)],
              content_type = ''application/json'',
              timeout = 10\<rparr>)))))"

text \<open>
  The \<^verbatim>\<open>try\<close> with its three \<^verbatim>\<open>except\<close> clauses, in the source's order, and the test of
  the response that follows. The strings are the prefixes of the four warnings.
\<close>

definition send_data ::
  "response action \<Rightarrow> string \<Rightarrow> string \<Rightarrow> string \<Rightarrow> string \<Rightarrow> bool action" where
  "send_data req conn_msg timeout_msg request_msg status_msg s =
     (case req s of
        (Inr resp, s1) \<Rightarrow>
          if ok resp then (Inr True, s1)
          else bind_exn (logging WARNING (Str (status_msg @ reason resp)))
                 (\<lambda>_. return_val False) s1
      | (Inl e, s1) \<Rightarrow>
          if is_ConnectionError e then
            bind_exn (logging WARNING (Str (conn_msg @ exn_str e))) (\<lambda>_. return_val False) s1
          else if is_Timeout e then
            bind_exn (logging WARNING (Str (timeout_msg @ exn_str e))) (\<lambda>_. return_val False) s1
          else if is_RequestException e then
            bind_exn (logging WARNING (Str (request_msg @ exn_str e))) (\<lambda>_. return_val False) s1
          else (Inl e, s1))"

definition send_enviro_data :: "env \<Rightarrow> reading \<Rightarrow> bool action" where
  "send_enviro_data E values s =
     send_data (enviro_request E values)
       ''API Enviro Connection Error: '' ''API Enviro Timeout Error: ''
       ''API Enviro Request Error: '' ''API Enviro Error. Enviro: ''
       (emit (Send_enviro_data values) s)"

definition send_pm_data :: "env \<Rightarrow> reading \<Rightarrow> bool action" where
  "send_pm_data E values s =
     send_data (pm_request E values)
       ''API PM Connection Error: '' ''API PM Timeout Error: ''
       ''API PM Request Error: '' ''Error. PM: ''
       (emit (Send_pm_data values) s)"

section \<open>Scheduler loop\<close>

text \<open>
  The module-level statements before the loop that call a modelled library: the
  \<^verbatim>\<open>datetime.now\<close> of line 41, the two \<^verbatim>\<open>time.time()\<close> that start the timers and the
  first log.
\<close>

definition startup :: "env \<Rightarrow> state" where
  "startup E =
     \<lparr>time_since_update = 0, update_time = time_time E 0,
      time_since_update2 = 0, update_time2 = time_time E 1,
      calls = [Lib Datetime_now, Lib Time_time, Lib Time_time,
               Logging INFO (Str ''Starting Enviro+ Data Send'')]\<rparr>"

definition assign :: "(state \<Rightarrow> state) \<Rightarrow> unit action" where
  "assign f s = (Inr (), f s)"

text \<open>\<^verbatim>\<open>if time_since_update > 300: ...\<close>\<close>

definition air_quality_step :: "env \<Rightarrow> reading \<Rightarrow> unit action" where
  "air_quality_step E pm_values s =
     (if 300 < time_since_update s then
        bind_exn (logging INFO (Dict pm_values)) (\<lambda>_.
        bind_exn (lib_total Time_time (time_time E)) (\<lambda>t.
        bind_exn (assign (\<lambda>s. s\<lparr>update_time := t\<rparr>)) (\<lambda>_.
        bind_exn (send_pm_data E pm_values) (\<lambda>sent.
        if sent then logging INFO (Str ''API pm Response: OK'')
        else logging WARNING (Str ''API pm Response: Failed''))))) s
      else (Inr (), s))"

text \<open>\<^verbatim>\<open>if time_since_update2 > 900: ...\<close>\<close>

definition enviro_step :: "env \<Rightarrow> reading \<Rightarrow> unit action" where
  "enviro_step E enviro_values s =
     (if 900 < time_since_update2 s then
        bind_exn (logging INFO (Dict enviro_values)) (\<lambda>_.
        bind_exn (lib_total Time_time (time_time E)) (\<lambda>t.
        bind_exn (assign (\<lambda>s. s\<lparr>update_time2 := t\<rparr>)) (\<lambda>_.
        bind_exn (send_enviro_data E enviro_values) (\<lambda>sent.
        if sent then logging INFO (Str ''API enviro Response: OK'')
        else logging WARNING (Str ''API enviro Response: Failed''))))) s
      else (Inr (), s))"

text \<open>The statements of the \<^verbatim>\<open>try\<close> block up to the two tests.\<close>

definition read_and_time :: "env \<Rightarrow> (reading \<times> reading) action" where
  "read_and_time E =
     bind_exn (read_enviro_values E) (\<lambda>enviro_values.
     bind_exn (read_pm_values E) (\<lambda>pm_values.
     bind_exn (lib_total Time_time (time_time E)) (\<lambda>t.
     bind_exn (assign (\<lambda>s. s\<lparr>time_since_update := float_sub E t (update_time s)\<rparr>)) (\<lambda>_.
     bind_exn (lib_total Time_time (time_time E)) (\<lambda>t2.
     bind_exn (assign (\<lambda>s. s\<lparr>time_since_update2 := float_sub E t2 (update_time2 s)\<rparr>)) (\<lambda>_.
     return_val (enviro_values, pm_values)))))))"

definition loop_body :: "env \<Rightarrow> unit action" where
  "loop_body E =
     bind_exn (read_and_time E) (\<lambda>(enviro_values, pm_values).
     bind_exn (air_quality_step E pm_values) (\<lambda>_.
     enviro_step E enviro_values))"

text \<open>
  One iteration: the \<^verbatim>\<open>try\<close> block and the handler \<^verbatim>\<open>except Exception\<close>. The result is
  the state in which the iteration ends. An exception that does not derive from
  \<^verbatim>\<open>Exception\<close> is not caught: nothing is logged, and the exception leaves the loop and
  ends the process (\<open>stops\<close>).
\<close>

definition iteration :: "env \<Rightarrow> state \<Rightarrow> state" where
  "iteration E s =
     (case loop_body E s of
        (Inr _, s') \<Rightarrow> s'
      | (Inl e, s') \<Rightarrow>
          if is_Exception e
          then emit (Logging WARNING (Str (''Main Loop Exception: '' @ exn_str e))) s'
          else s')"

definition stops :: "env \<Rightarrow> state \<Rightarrow> bool" where
  "stops E s = (case fst (loop_body E s) of Inl e \<Rightarrow> \<not> is_Exception e | Inr _ \<Rightarrow> False)"

text \<open>
  \<^verbatim>\<open>while True\<close> has no exit of its own. \<open>main_loop E n s\<close> is the state after \<open>n\<close>
  iterations from \<open>s\<close>, or the state in which the process ended if an iteration before
  that stopped it; \<open>running E n s\<close> says that \<open>n\<close> iterations from \<open>s\<close> go through without
  stopping the process.
\<close>

fun main_loop :: "env \<Rightarrow> nat \<Rightarrow> state \<Rightarrow> state" where
  "main_loop E 0 s = s"
| "main_loop E (Suc n) s =
     (if stops E s then iteration E s else main_loop E n (iteration E s))"

fun running :: "env \<Rightarrow> nat \<Rightarrow> state \<Rightarrow> bool" where
  "running E 0 s = True"
| "running E (Suc n) s = (\<not> stops E s \<and> running E n (iteration E s))"

section \<open>Notions used to state the properties\<close>

definition pm_fields :: "string list" where
  "pm_fields = [''date'', ''pm1'', ''pm25'', ''pm10'']"

definition enviro_fields :: "string list" where
  "enviro_fields =
     [''date'', ''temperature'', ''pressure'', ''humidity'', ''oxidising'', ''reducing'', ''nh3'']"

text \<open>The dict passed to \<^verbatim>\<open>json.dumps\<close> for a reading that has the fields \<open>ks\<close>.\<close>

definition payload :: "string list \<Rightarrow> reading \<Rightarrow> reading" where
  "payload ks values = map (\<lambda>k. (k, the (map_of values k))) ks"

definition pm_post :: "string \<Rightarrow> reading \<Rightarrow> request" where
  "pm_post base values =
     \<lparr>url = base @ ''/air-quality'', data = payload pm_fields values,
      content_type = ''application/json'', timeout = 10\<rparr>"

definition enviro_post :: "string \<Rightarrow> reading \<Rightarrow> request" where
  "enviro_post base values =
     \<lparr>url = base @ ''/enviro-data'', data = payload enviro_fields values,
      content_type = ''application/json'', timeout = 10\<rparr>"

definition has_fields :: "string list \<Rightarrow> reading \<Rightarrow> bool" where
  "has_fields ks values = list_all (\<lambda>k. map_of values k \<noteq> None) ks"

text \<open>The prefix of the warning that the \<^verbatim>\<open>except\<close> clause taking \<open>e\<close> logs.\<close>

definition pm_prefix :: "exn \<Rightarrow> string" where
  "pm_prefix e =
     (if is_ConnectionError e then ''API PM Connection Error: ''
      else if is_Timeout e then ''API PM Timeout Error: ''
      else ''API PM Request Error: '')"

definition enviro_prefix :: "exn \<Rightarrow> string" where
  "enviro_prefix e =
     (if is_ConnectionError e then ''API Enviro Connection Error: ''
      else if is_Timeout e then ''API Enviro Timeout Error: ''
      else ''API Enviro Request Error: '')"

text \<open>The four variables of the scheduler, for frame statements.\<close>

definition vars :: "state \<Rightarrow> real \<times> real \<times> real \<times> real" where
  "vars s = (time_since_update s, update_time s, time_since_update2 s, update_time2 s)"

text \<open>\<open>emits P A\<close>: the action \<open>A\<close> leaves the variables alone and makes only calls in \<open>P\<close>.\<close>

definition emits :: "(event \<Rightarrow> bool) \<Rightarrow> 'a action \<Rightarrow> bool" where
  "emits P A =
     (\<forall>s. vars (snd (A s)) = vars s \<and>
          (\<exists>evs. calls (snd (A s)) = calls s @ evs \<and> list_all P evs))"

fun is_send_pm :: "event \<Rightarrow> bool" where
  "is_send_pm (Send_pm_data v) = True"
| "is_send_pm ev = False"

fun is_send_enviro :: "event \<Rightarrow> bool" where
  "is_send_enviro (Send_enviro_data v) = True"
| "is_send_enviro ev = False"

fun is_warning :: "event \<Rightarrow> bool" where
  "is_warning (Logging WARNING m) = True"
| "is_warning ev = False"

text \<open>The calls a sensor read may make: libraries other than the clock, and info logs.\<close>

fun is_sensor_call :: "event \<Rightarrow> bool" where
  "is_sensor_call (Lib l) = (l \<noteq> Time_time)"
| "is_sensor_call (Logging lv m) = (lv = INFO)"
| "is_sensor_call ev = False"

text \<open>
  The calls an upload may make after its entry: a request whose dict has the fields of
  one of the two readings, and the logs.
\<close>

fun is_upload_call :: "event \<Rightarrow> bool" where
  "is_upload_call (Requests_post r) =
     (map fst (data r) = pm_fields \<or> map fst (data r) = enviro_fields)"
| "is_upload_call (Logging lv m) = True"
| "is_upload_call ev = False"

text \<open>A call that hands over a reading hands over all the fields of its kind.\<close>

fun complete_call :: "event \<Rightarrow> bool" where
  "complete_call (Send_pm_data v) = (map fst v = pm_fields)"
| "complete_call (Send_enviro_data v) = (map fst v = enviro_fields)"
| "complete_call (Requests_post r) =
     (map fst (data r) = pm_fields \<or> map fst (data r) = enviro_fields)"
| "complete_call ev = True"

text \<open>The calls made by one iteration started in \<open>s\<close>.\<close>

definition new_calls :: "env \<Rightarrow> state \<Rightarrow> event list" where
  "new_calls E s = drop (length (calls s)) (calls (iteration E s))"

definition pm_send_occurs :: "env \<Rightarrow> state \<Rightarrow> bool" where
  "pm_send_occurs E s = list_ex is_send_pm (new_calls E s)"

definition enviro_send_occurs :: "env \<Rightarrow> state \<Rightarrow> bool" where
  "enviro_send_occurs E s = list_ex is_send_enviro (new_calls E s)"

text \<open>
  The elapsed times an iteration started in \<open>s\<close> computes: its two clock readings
  against the two timers.
\<close>

definition elapsed_pm :: "env \<Rightarrow> state \<Rightarrow> real" where
  "elapsed_pm E s = float_sub E (time_time E (n_lib Time_time s)) (update_time s)"

definition elapsed_enviro :: "env \<Rightarrow> state \<Rightarrow> real" where
  "elapsed_enviro E s = float_sub E (time_time E (Suc (n_lib Time_time s))) (update_time2 s)"

definition reads_return :: "env \<Rightarrow> state \<Rightarrow> bool" where
  "reads_return E s = (\<not> isl (fst (read_and_time E s)))"

text \<open>Whether the air-quality block of the iteration started in \<open>s\<close> raises.\<close>

definition pm_step_raises :: "env \<Rightarrow> state \<Rightarrow> bool" where
  "pm_step_raises E s =
     (case read_and_time E s of
        (Inr (enviro_values, pm_values), s1) \<Rightarrow> isl (fst (air_quality_step E pm_values s1))
      | (Inl e, s1) \<Rightarrow> False)"

definition n_pm_sends :: "state \<Rightarrow> nat" where
  "n_pm_sends s = length (filter is_send_pm (calls s))"

definition n_enviro_sends :: "state \<Rightarrow> nat" where
  "n_enviro_sends s = length (filter is_send_enviro (calls s))"

text \<open>Decimal digits and the number a digit string denotes.\<close>

definition is_digit :: "char \<Rightarrow> bool" where
  "is_digit c = (c \<in> set ''0123456789'')"

definition digit_val :: "char \<Rightarrow> nat" where
  "digit_val c = of_char c - 48"

definition nat_of_digits :: "string \<Rightarrow> nat" where
  "nat_of_digits cs = foldl (\<lambda>a c. 10 * a + digit_val c) 0 cs"

section \<open>Example environments\<close>

text \<open>
  Float subtraction and division without rounding error, as IEEE 754 defines them on
  zeros, infinities and NaN: an exact result at or beyond \<open>2^1024 - 2^970\<close>, the least
  magnitude that rounds to an infinity, overflows. The divisor of \<open>exact_div\<close> is a finite
  float other than zero, as \<open>comp_factor\<close> is (for a zero divisor Python raises).
\<close>

definition overflow_threshold :: real where
  "overflow_threshold = 2 ^ 1024 - 2 ^ 970"

definition to_float :: "real \<Rightarrow> pyfloat" where
  "to_float r = (if overflow_threshold \<le> \<bar>r\<bar> then Inf (r < 0) else Float r)"

fun exact_sub :: "pyfloat \<Rightarrow> pyfloat \<Rightarrow> pyfloat" where
  "exact_sub NaN b = NaN"
| "exact_sub a NaN = NaN"
| "exact_sub (Inf m) (Inf n) = (if m = n then NaN else Inf m)"
| "exact_sub (Inf m) b = Inf m"
| "exact_sub a (Inf n) = Inf (\<not> n)"
| "exact_sub NegZero NegZero = Float 0"
| "exact_sub NegZero (Float y) = (if y = 0 then NegZero else Float (- y))"
| "exact_sub (Float x) NegZero = Float x"
| "exact_sub (Float x) (Float y) = to_float (x - y)"

fun exact_div :: "pyfloat \<Rightarrow> real \<Rightarrow> pyfloat" where
  "exact_div NaN d = NaN"
| "exact_div (Inf m) d = Inf (m \<noteq> (d < 0))"
| "exact_div NegZero d = (if d < 0 then Float 0 else NegZero)"
| "exact_div (Float x) d =
     (if x = 0 then (if d < 0 then NegZero else Float 0) else to_float (x / d))"

definition quiet_env :: env where
  "quiet_env =
     \<lparr>API_URL = Some ''http://api.example'',
      time_time = (\<lambda>k. 1000),
      datetime_now = (\<lambda>k. ''03-11-2026 10:00''),
      thermal_zone = (\<lambda>k. Inr 45000),
      bme280_get_temperature = (\<lambda>k. Inr (Float 20)),
      bme280_get_pressure = (\<lambda>k. Inr (Float 1013.25)),
      bme280_get_humidity = (\<lambda>k. Inr (Float 41.5)),
      gas_read_all = (\<lambda>k. Inr \<lparr>oxidising = 12999, reducing = 450500, nh3 = 999\<rparr>),
      pms5003_read = (\<lambda>k. Inr \<lparr>pm1 = 3, pm25 = 7, pm10 = 12\<rparr>),
      requests_post = (\<lambda>k r. Inr \<lparr>ok = True, reason = ''OK''\<rparr>),
      float_sub = (\<lambda>a b. a - b),
      float_div = (\<lambda>a b. a / b),
      ieee_sub = exact_sub,
      ieee_div = exact_div\<rparr>"

definition state_at :: "real \<Rightarrow> real \<Rightarrow> state" where
  "state_at u u2 =
     \<lparr>time_since_update = 0, update_time = u, time_since_update2 = 0, update_time2 = u2,
      calls = []\<rparr>"

text \<open>The particulate sensor fails once with a timeout, then answers.\<close>

definition retry_env :: env where
  "retry_env = quiet_env\<lparr>pms5003_read :=
     (\<lambda>k. if k = 0 then Inl (ReadTimeoutError ''timeout'')
          else if k = 1 then Inr \<lparr>pm1 = 5, pm25 = 11, pm10 = 23\<rparr>
          else Inr \<lparr>pm1 = 3, pm25 = 7, pm10 = 12\<rparr>)\<rparr>"

text \<open>The particulate sensor fails twice, with different errors.\<close>

definition dead_env :: env where
  "dead_env = quiet_env\<lparr>pms5003_read :=
     (\<lambda>k. if k = 0 then Inl (ChecksumMismatchError ''first'')
          else Inl (ReadTimeoutError ''second''))\<rparr>"

text \<open>The particulate sensor fails with an error that is not transient.\<close>

definition broken_env :: env where
  "broken_env = quiet_env\<lparr>pms5003_read := (\<lambda>k. Inl (OtherException ''serial port closed''))\<rparr>"

text \<open>Two complete readings, an API that fails in three ways, and no \<^verbatim>\<open>API_URL\<close>.\<close>

definition pm_example :: reading where
  "pm_example = [(''date'', ''03-11-2026 10:00''), (''pm1'', ''3''), (''pm25'', ''7''), (''pm10'', ''12'')]"

definition enviro_example :: reading where
  "enviro_example =
     [(''date'', ''03-11-2026 10:00''), (''temperature'', ''08.89''), (''pressure'', ''1013.25''),
      (''humidity'', ''41.50''), (''oxidising'', ''12''), (''reducing'', ''450''), (''nh3'', ''0'')]"

definition failing_env :: env where
  "failing_env = quiet_env\<lparr>requests_post :=
     (\<lambda>k r. if k = 0 then Inr \<lparr>ok = False, reason = ''Internal Server Error''\<rparr>
            else if k = 1 then Inl (ConnectTimeout ''connect timed out'')
            else Inl (OtherException ''unexpected''))\<rparr>"

definition no_url_env :: env where
  "no_url_env = quiet_env\<lparr>API_URL := None\<rparr>"

text \<open>A state in which both sends are due.\<close>

definition due_state :: state where
  "due_state = (state_at 0 0)\<lparr>time_since_update := 301, time_since_update2 := 901\<rparr>"

text \<open>A clock that advances by 200 seconds from one reading to the next.\<close>

definition ticking_env :: env where
  "ticking_env = quiet_env\<lparr>time_time := (\<lambda>k. 200 * real k)\<rparr>"

text \<open>
  The temperature sensor returns \<open>1.5 * 2^1023\<close>, a finite float near the largest one;
  and the temperature sensor returns \<^verbatim>\<open>-0.0\<close> while the CPU is at 0 millidegrees.
\<close>

definition overflow_env :: env where
  "overflow_env = quiet_env\<lparr>bme280_get_temperature := (\<lambda>k. Inr (Float (3 * 2 ^ 1022)))\<rparr>"

definition negzero_env :: env where
  "negzero_env = quiet_env\<lparr>bme280_get_temperature := (\<lambda>k. Inr NegZero),
                           thermal_zone := (\<lambda>k. Inr 0)\<rparr>"

text \<open>The process is interrupted while the particulate sensor is read.\<close>

definition interrupted_env :: env where
  "interrupted_env = quiet_env\<lparr>pms5003_read := (\<lambda>k. Inl (KeyboardInterrupt ''''))\<rparr>"

section \<open>Notions about exceptions\<close>

text \<open>\<open>raises P A\<close>: every exception the action \<open>A\<close> raises is in \<open>P\<close>.\<close>

definition raises :: "(exn \<Rightarrow> bool) \<Rightarrow> 'a action \<Rightarrow> bool" where
  "raises P A = (\<forall>s e s'. A s = (Inl e, s') \<longrightarrow> P e)"

text \<open>\<open>benign E\<close>: every exception a library call raises derives from \<^verbatim>\<open>Exception\<close>.\<close>

definition benign :: "env \<Rightarrow> bool" where
  "benign E =
     ((\<forall>k e. thermal_zone E k = Inl e \<longrightarrow> is_Exception e) \<and>
      (\<forall>k e. bme280_get_temperature E k = Inl e \<longrightarrow> is_Exception e) \<and>
      (\<forall>k e. bme280_get_pressure E k = Inl e \<longrightarrow> is_Exception e) \<and>
      (\<forall>k e. bme280_get_humidity E k = Inl e \<longrightarrow> is_Exception e) \<and>
      (\<forall>k e. gas_read_all E k = Inl e \<longrightarrow> is_Exception e) \<and>
      (\<forall>k e. pms5003_read E k = Inl e \<longrightarrow> is_Exception e) \<and>
      (\<forall>k r e. requests_post E k r = Inl e \<longrightarrow> is_Exception e))"

section \<open>Basic facts\<close>

lemmas act_defs = Let_def bind_exn_def lib_total_def lib_call_def logging_def return_val_def
  raise_exn_def emit_def n_lib_def assign_def

lemma emits_bind:
  assumes "emits P m" and "\<And>a. emits P (f a)"
  shows "emits P (bind_exn m f)"
proof (unfold emits_def, intro allI)
  fix s
  obtain r s1 where ms: "m s = (r, s1)" by (cases "m s")
  from assms(1) ms obtain evs1 where v1: "vars s1 = vars s"
    and c1: "calls s1 = calls s @ evs1" and p1: "list_all P evs1"
    unfolding emits_def by (metis snd_conv)
  show "vars (snd (bind_exn m f s)) = vars s \<and>
        (\<exists>evs. calls (snd (bind_exn m f s)) = calls s @ evs \<and> list_all P evs)"
  proof (cases r)
    case (Inl e)
    with ms v1 c1 p1 show ?thesis by (auto simp: bind_exn_def)
  next
    case (Inr a)
    from assms(2) [of a] obtain evs2 where v2: "vars (snd (f a s1)) = vars s1"
      and c2: "calls (snd (f a s1)) = calls s1 @ evs2" and p2: "list_all P evs2"
      unfolding emits_def by blast
    from Inr ms have "bind_exn m f s = f a s1" by (simp add: bind_exn_def)
    with v1 v2 c1 c2 p1 p2 show ?thesis by auto
  qed
qed

lemma emits_lib_call: "P (Lib l) \<Longrightarrow> emits P (lib_call l f)"
  by (simp add: emits_def lib_call_def emit_def vars_def)

lemma emits_lib_total: "P (Lib l) \<Longrightarrow> emits P (lib_total l f)"
  by (simp add: emits_def lib_total_def emit_def vars_def)

lemma emits_logging: "P (Logging lv m) \<Longrightarrow> emits P (logging lv m)"
  by (simp add: emits_def logging_def emit_def vars_def)

lemma emits_return: "emits P (return_val a)"
  by (simp add: emits_def return_val_def)

lemma emits_raise: "emits P (raise_exn e)"
  by (simp add: emits_def raise_exn_def)

lemma emits_weaken: "emits P A \<Longrightarrow> (\<And>ev. P ev \<Longrightarrow> Q ev) \<Longrightarrow> emits Q A"
  unfolding emits_def by (metis (mono_tags, lifting) list_all_iff)

lemmas emits_intros = emits_bind emits_lib_call emits_lib_total emits_logging emits_return emits_raise

lemma emits_get_cpu_temperature: "emits is_sensor_call (get_cpu_temperature E)"
  unfolding get_cpu_temperature_def by (intro emits_intros) simp

lemma emits_read_enviro_values: "emits is_sensor_call (read_enviro_values E)"
  unfolding read_enviro_values_def Let_def
  by (intro emits_intros emits_get_cpu_temperature) simp_all

lemma emits_read_pm_values: "emits is_sensor_call (read_pm_values E)"
  by (auto simp: emits_def read_pm_values_def act_defs vars_def split: sum.splits)

lemma emits_dict_get: "emits P (dict_get values k)"
  by (simp add: dict_get_def emits_intros split: option.splits)

lemma emits_api_path: "emits P (api_path E p)"
  by (simp add: api_path_def emits_intros split: option.splits)

lemma emits_post: "P (Requests_post r) \<Longrightarrow> emits P (post E r)"
  by (simp add: emits_def post_def emit_def vars_def)

lemma emits_pm_request: "emits is_upload_call (pm_request E values)"
  unfolding pm_request_def
  by (intro emits_bind emits_dict_get emits_api_path emits_post) (simp add: pm_fields_def)

lemma emits_enviro_request: "emits is_upload_call (enviro_request E values)"
  unfolding enviro_request_def
  by (intro emits_bind emits_dict_get emits_api_path emits_post) (simp add: enviro_fields_def)

lemma emits_send_data:
  assumes "emits is_upload_call req"
  shows "emits is_upload_call (send_data req a b c d)"
proof -
  show ?thesis
    unfolding emits_def
  proof
    fix s
    obtain r s1 where rs: "req s = (r, s1)" by (cases "req s")
    from assms rs obtain evs where "vars s1 = vars s" "calls s1 = calls s @ evs" "list_all is_upload_call evs"
      unfolding emits_def by (metis snd_conv)
    then show "vars (snd (send_data req a b c d s)) = vars s \<and>
          (\<exists>evs. calls (snd (send_data req a b c d s)) = calls s @ evs \<and> list_all is_upload_call evs)"
      using rs by (auto simp: send_data_def act_defs vars_def split: sum.splits)
  qed
qed


lemma send_pm_data_summary:
  "vars (snd (send_pm_data E v s)) = vars s \<and>
   (\<exists>evs. calls (snd (send_pm_data E v s)) = calls s @ Send_pm_data v # evs \<and>
          list_all is_upload_call evs)"
proof -
  let ?A = "send_data (pm_request E v)
       ''API PM Connection Error: '' ''API PM Timeout Error: ''
       ''API PM Request Error: '' ''Error. PM: ''"
  let ?s0 = "emit (Send_pm_data v) s"
  have "emits is_upload_call ?A"
    by (rule emits_send_data [OF emits_pm_request])
  then obtain evs where "vars (snd (?A ?s0)) = vars ?s0"
    and "calls (snd (?A ?s0)) = calls ?s0 @ evs" and "list_all is_upload_call evs"
    unfolding emits_def by blast
  then show ?thesis
    by (simp add: send_pm_data_def emit_def vars_def)
qed

lemma send_enviro_data_summary:
  "vars (snd (send_enviro_data E v s)) = vars s \<and>
   (\<exists>evs. calls (snd (send_enviro_data E v s)) = calls s @ Send_enviro_data v # evs \<and>
          list_all is_upload_call evs)"
proof -
  let ?A = "send_data (enviro_request E v)
       ''API Enviro Connection Error: '' ''API Enviro Timeout Error: ''
       ''API Enviro Request Error: '' ''API Enviro Error. Enviro: ''"
  let ?s0 = "emit (Send_enviro_data v) s"
  have "emits is_upload_call ?A"
    by (rule emits_send_data [OF emits_enviro_request])
  then obtain evs where "vars (snd (?A ?s0)) = vars ?s0"
    and "calls (snd (?A ?s0)) = calls ?s0 @ evs" and "list_all is_upload_call evs"
    unfolding emits_def by blast
  then show ?thesis
    by (simp add: send_enviro_data_def emit_def vars_def)
qed

lemma air_quality_step_idle:
  "\<not> 300 < time_since_update s \<Longrightarrow> air_quality_step E pv s = (Inr (), s)"
  by (simp add: air_quality_step_def)

lemma enviro_step_idle:
  "\<not> 900 < time_since_update2 s \<Longrightarrow> enviro_step E ev s = (Inr (), s)"
  by (simp add: enviro_step_def)

lemma air_quality_step_due:
  assumes "300 < time_since_update s"
  shows "air_quality_step E pv s =
     bind_exn (send_pm_data E pv) (\<lambda>sent.
        if sent then logging INFO (Str ''API pm Response: OK'')
        else logging WARNING (Str ''API pm Response: Failed''))
       (s\<lparr>calls := calls s @ [Logging INFO (Dict pv), Lib Time_time],
          update_time := time_time E (n_lib Time_time s)\<rparr>)"
  using assms by (simp add: air_quality_step_def act_defs)

lemma enviro_step_due:
  assumes "900 < time_since_update2 s"
  shows "enviro_step E ev s =
     bind_exn (send_enviro_data E ev) (\<lambda>sent.
        if sent then logging INFO (Str ''API enviro Response: OK'')
        else logging WARNING (Str ''API enviro Response: Failed''))
       (s\<lparr>calls := calls s @ [Logging INFO (Dict ev), Lib Time_time],
          update_time2 := time_time E (n_lib Time_time s)\<rparr>)"
  using assms by (simp add: enviro_step_def act_defs)

lemma air_quality_step_due_summary:
  assumes "300 < time_since_update s"
  shows "\<exists>evs. calls (snd (air_quality_step E pv s)) =
            calls s @ [Logging INFO (Dict pv), Lib Time_time, Send_pm_data pv] @ evs \<and>
          list_all is_upload_call evs \<and>
          vars (snd (air_quality_step E pv s)) =
            (time_since_update s, time_time E (n_lib Time_time s),
             time_since_update2 s, update_time2 s)"
proof -
  let ?s1 = "s\<lparr>calls := calls s @ [Logging INFO (Dict pv), Lib Time_time],
          update_time := time_time E (n_lib Time_time s)\<rparr>"
  obtain r s2 where snd: "send_pm_data E pv ?s1 = (r, s2)" by (cases "send_pm_data E pv ?s1")
  from send_pm_data_summary [of E pv ?s1] snd obtain evs where
    v: "vars s2 = vars ?s1" and c: "calls s2 = calls ?s1 @ Send_pm_data pv # evs"
    and u: "list_all is_upload_call evs" by auto
  show ?thesis
  proof (cases r)
    case (Inl e)
    with snd v c u show ?thesis
      by (simp add: air_quality_step_due [OF assms] bind_exn_def vars_def)
  next
    case (Inr b)
    with snd v c u show ?thesis
      by (simp add: air_quality_step_due [OF assms] bind_exn_def vars_def logging_def emit_def)
  qed
qed

lemma enviro_step_due_summary:
  assumes "900 < time_since_update2 s"
  shows "\<exists>evs. calls (snd (enviro_step E ev s)) =
            calls s @ [Logging INFO (Dict ev), Lib Time_time, Send_enviro_data ev] @ evs \<and>
          list_all is_upload_call evs \<and>
          vars (snd (enviro_step E ev s)) =
            (time_since_update s, update_time s,
             time_since_update2 s, time_time E (n_lib Time_time s))"
proof -
  let ?s1 = "s\<lparr>calls := calls s @ [Logging INFO (Dict ev), Lib Time_time],
          update_time2 := time_time E (n_lib Time_time s)\<rparr>"
  obtain r s2 where snd: "send_enviro_data E ev ?s1 = (r, s2)"
    by (cases "send_enviro_data E ev ?s1")
  from send_enviro_data_summary [of E ev ?s1] snd obtain evs where
    v: "vars s2 = vars ?s1" and c: "calls s2 = calls ?s1 @ Send_enviro_data ev # evs"
    and u: "list_all is_upload_call evs" by auto
  show ?thesis
  proof (cases r)
    case (Inl e)
    with snd v c u show ?thesis
      by (simp add: enviro_step_due [OF assms] bind_exn_def vars_def)
  next
    case (Inr b)
    with snd v c u show ?thesis
      by (simp add: enviro_step_due [OF assms] bind_exn_def vars_def logging_def emit_def)
  qed
qed

lemma read_enviro_values_fields:
  "read_enviro_values E s = (Inr v, s') \<Longrightarrow> map fst v = enviro_fields"
  by (auto simp: read_enviro_values_def get_cpu_temperature_def act_defs enviro_fields_def
           split: sum.splits)

lemma read_pm_values_fields:
  "read_pm_values E s = (Inr v, s') \<Longrightarrow> map fst v = pm_fields"
  by (auto simp: read_pm_values_def store_pm_def act_defs pm_fields_def
           split: sum.splits if_splits)

lemma no_clock_in_sensor_calls:
  "list_all is_sensor_call evs \<Longrightarrow> count_list evs (Lib Time_time) = 0"
  by (induction evs) auto

lemma n_posts_emit_send [simp]:
  "n_posts (emit (Send_pm_data v) s) = n_posts s"
  "n_posts (emit (Send_enviro_data v) s) = n_posts s"
  by (simp_all add: n_posts_def emit_def)

lemma pm_request_complete:
  assumes "API_URL E = Some base" and "has_fields pm_fields values"
  shows "pm_request E values s = post E (pm_post base values) s"
  using assms
  by (auto simp: pm_request_def api_path_def dict_get_def has_fields_def pm_fields_def
      pm_post_def payload_def bind_exn_def return_val_def)

lemma enviro_request_complete:
  assumes "API_URL E = Some base" and "has_fields enviro_fields values"
  shows "enviro_request E values s = post E (enviro_post base values) s"
  using assms
  by (auto simp: enviro_request_def api_path_def dict_get_def has_fields_def enviro_fields_def
      enviro_post_def payload_def bind_exn_def return_val_def)

lemma pm_request_returns:
  assumes "pm_request E values s = (Inr resp, s1)"
  shows "\<exists>r. requests_post E (n_posts s) r = Inr resp \<and> s1 = emit (Requests_post r) s"
  using assms
  by (auto simp: pm_request_def api_path_def dict_get_def bind_exn_def return_val_def
      raise_exn_def post_def split: option.splits)

lemma enviro_request_returns:
  assumes "enviro_request E values s = (Inr resp, s1)"
  shows "\<exists>r. requests_post E (n_posts s) r = Inr resp \<and> s1 = emit (Requests_post r) s"
  using assms
  by (auto simp: enviro_request_def api_path_def dict_get_def bind_exn_def return_val_def
      raise_exn_def post_def split: option.splits)

lemma send_data_True:
  "send_data req a b c d s = (Inr True, s') \<Longrightarrow> \<exists>resp. req s = (Inr resp, s') \<and> ok resp"
  by (auto simp: send_data_def act_defs split: prod.splits sum.splits if_splits)

lemma send_data_raises:
  "send_data req a b c d s = (Inl e, s') \<Longrightarrow> \<not> is_RequestException e \<and> req s = (Inl e, s')"
  by (auto simp: send_data_def act_defs split: prod.splits sum.splits if_splits)

lemma send_data_post:
  "send_data (post E r) a b c d s =
     (case requests_post E (n_posts s) r of
        Inr resp \<Rightarrow>
          if ok resp then (Inr True, s\<lparr>calls := calls s @ [Requests_post r]\<rparr>)
          else (Inr False,
                s\<lparr>calls := calls s @ [Requests_post r, Logging WARNING (Str (d @ reason resp))]\<rparr>)
      | Inl e \<Rightarrow>
          if is_RequestException e then
            (Inr False,
             s\<lparr>calls := calls s @ [Requests_post r,
                  Logging WARNING (Str ((if is_ConnectionError e then a
                     else if is_Timeout e then b else c) @ exn_str e))]\<rparr>)
          else (Inl e, s\<lparr>calls := calls s @ [Requests_post r]\<rparr>))"
  by (cases "requests_post E (n_posts s) r")
     (auto simp: send_data_def post_def act_defs elim: is_ConnectionError.elims is_Timeout.elims)

lemma pm_request_no_url:
  "API_URL E = None \<Longrightarrow> pm_request E values s = (Inl (TypeError none_plus_str), s)"
  by (simp add: pm_request_def api_path_def bind_exn_def raise_exn_def)

lemma enviro_request_no_url:
  "API_URL E = None \<Longrightarrow> enviro_request E values s = (Inl (TypeError none_plus_str), s)"
  by (simp add: enviro_request_def api_path_def bind_exn_def raise_exn_def)

lemma send_pm_data_no_url:
  "API_URL E = None \<Longrightarrow>
   send_pm_data E values s = (Inl (TypeError none_plus_str), emit (Send_pm_data values) s)"
  by (simp add: send_pm_data_def send_data_def pm_request_no_url)

lemma send_enviro_data_no_url:
  "API_URL E = None \<Longrightarrow>
   send_enviro_data E values s = (Inl (TypeError none_plus_str), emit (Send_enviro_data values) s)"
  by (simp add: send_enviro_data_def send_data_def enviro_request_no_url)

section \<open>Facts about one iteration and about runs of the loop\<close>

lemma upload_calls_filters:
  assumes "list_all is_upload_call evs"
  shows "filter is_send_pm evs = []" and "filter is_send_enviro evs = []"
    and "count_list evs (Lib Time_time) = 0"
  using assms by (induction evs) (auto elim: is_upload_call.elims)

lemma sensor_calls_filters:
  assumes "list_all is_sensor_call evs"
  shows "filter is_send_pm evs = []" and "filter is_send_enviro evs = []"
  using assms by (induction evs) (auto elim: is_sensor_call.elims)

lemma air_quality_step_effect:
  "\<exists>evs. calls (snd (air_quality_step E pv s)) = calls s @ evs \<and>
     filter is_send_pm evs = (if 300 < time_since_update s then [Send_pm_data pv] else []) \<and>
     filter is_send_enviro evs = [] \<and>
     count_list evs (Lib Time_time) = (if 300 < time_since_update s then 1 else 0) \<and>
     vars (snd (air_quality_step E pv s)) =
       (time_since_update s,
        if 300 < time_since_update s then time_time E (n_lib Time_time s) else update_time s,
        time_since_update2 s, update_time2 s)"
proof (cases "300 < time_since_update s")
  case True
  from air_quality_step_due_summary [OF True, of E pv] obtain evs where
    "calls (snd (air_quality_step E pv s)) =
       calls s @ [Logging INFO (Dict pv), Lib Time_time, Send_pm_data pv] @ evs"
    and "list_all is_upload_call evs"
    and "vars (snd (air_quality_step E pv s)) =
            (time_since_update s, time_time E (n_lib Time_time s),
             time_since_update2 s, update_time2 s)" by blast
  with True show ?thesis
    by (simp add: upload_calls_filters)
next
  case False
  then show ?thesis by (simp add: air_quality_step_idle vars_def)
qed

lemma enviro_step_effect:
  "\<exists>evs. calls (snd (enviro_step E ev s)) = calls s @ evs \<and>
     filter is_send_enviro evs = (if 900 < time_since_update2 s then [Send_enviro_data ev] else []) \<and>
     filter is_send_pm evs = [] \<and>
     count_list evs (Lib Time_time) = (if 900 < time_since_update2 s then 1 else 0) \<and>
     vars (snd (enviro_step E ev s)) =
       (time_since_update s, update_time s, time_since_update2 s,
        if 900 < time_since_update2 s then time_time E (n_lib Time_time s) else update_time2 s)"
proof (cases "900 < time_since_update2 s")
  case True
  from enviro_step_due_summary [OF True, of E ev] obtain evs where
    "calls (snd (enviro_step E ev s)) =
       calls s @ [Logging INFO (Dict ev), Lib Time_time, Send_enviro_data ev] @ evs"
    and "list_all is_upload_call evs"
    and "vars (snd (enviro_step E ev s)) =
            (time_since_update s, update_time s,
             time_since_update2 s, time_time E (n_lib Time_time s))" by blast
  with True show ?thesis
    by (simp add: upload_calls_filters)
next
  case False
  then show ?thesis by (simp add: enviro_step_idle vars_def)
qed

lemma read_and_time_returns:
  assumes "read_and_time E s = (Inr (ev, pv), s1)"
  shows "\<exists>evs. calls s1 = calls s @ evs @ [Lib Time_time, Lib Time_time] \<and>
           list_all is_sensor_call evs"
    and "vars s1 = (elapsed_pm E s, update_time s, elapsed_enviro E s, update_time2 s)"
    and "map fst ev = enviro_fields" and "map fst pv = pm_fields"
proof -
  obtain r1 sa where a: "read_enviro_values E s = (r1, sa)" by (cases "read_enviro_values E s")
  obtain r2 sb where b: "read_pm_values E sa = (r2, sb)" by (cases "read_pm_values E sa")
  from assms a obtain ev' where r1: "r1 = Inr ev'"
    by (cases r1) (auto simp: read_and_time_def bind_exn_def)
  from assms a b r1 obtain pv' where r2: "r2 = Inr pv'"
    by (cases r2) (auto simp: read_and_time_def bind_exn_def)
  from emits_read_enviro_values [of E] a obtain evs1 where
    va: "vars sa = vars s" and ca: "calls sa = calls s @ evs1" and pa: "list_all is_sensor_call evs1"
    unfolding emits_def by (metis snd_conv)
  from emits_read_pm_values [of E] b obtain evs2 where
    vb: "vars sb = vars sa" and cb: "calls sb = calls sa @ evs2" and pb: "list_all is_sensor_call evs2"
    unfolding emits_def by (metis snd_conv)
  have n: "n_lib Time_time sb = n_lib Time_time s"
    using ca cb pa pb by (simp add: n_lib_def no_clock_in_sensor_calls)
  have res: "ev = ev'" "pv = pv'"
    and s1: "s1 = sb\<lparr>calls := calls sb @ [Lib Time_time, Lib Time_time],
                 time_since_update := float_sub E (time_time E (n_lib Time_time sb)) (update_time sb),
                 time_since_update2 :=
                   float_sub E (time_time E (Suc (n_lib Time_time sb))) (update_time2 sb)\<rparr>"
    using assms a b r1 r2 by (auto simp: read_and_time_def act_defs)
  from s1 ca cb pa pb show "\<exists>evs. calls s1 = calls s @ evs @ [Lib Time_time, Lib Time_time] \<and>
           list_all is_sensor_call evs"
    by (intro exI [of _ "evs1 @ evs2"]) simp
  from s1 va vb n show "vars s1 = (elapsed_pm E s, update_time s, elapsed_enviro E s, update_time2 s)"
    by (simp add: vars_def elapsed_pm_def elapsed_enviro_def)
  from a r1 res show "map fst ev = enviro_fields" by (simp add: read_enviro_values_fields)
  from b r2 res show "map fst pv = pm_fields" by (simp add: read_pm_values_fields)
qed

lemma read_and_time_raises:
  assumes "read_and_time E s = (Inl e, s1)"
  shows "vars s1 = vars s \<and> (\<exists>evs. calls s1 = calls s @ evs \<and> list_all is_sensor_call evs)"
proof -
  obtain r1 sa where a: "read_enviro_values E s = (r1, sa)" by (cases "read_enviro_values E s")
  obtain r2 sb where b: "read_pm_values E sa = (r2, sb)" by (cases "read_pm_values E sa")
  from emits_read_enviro_values [of E] a obtain evs1 where
    va: "vars sa = vars s" and ca: "calls sa = calls s @ evs1" and pa: "list_all is_sensor_call evs1"
    unfolding emits_def by (metis snd_conv)
  from emits_read_pm_values [of E] b obtain evs2 where
    vb: "vars sb = vars sa" and cb: "calls sb = calls sa @ evs2" and pb: "list_all is_sensor_call evs2"
    unfolding emits_def by (metis snd_conv)
  show ?thesis
  proof (cases r1)
    case (Inl e1)
    with assms a have "s1 = sa" by (simp add: read_and_time_def bind_exn_def)
    with va ca pa show ?thesis by blast
  next
    case (Inr ev)
    show ?thesis
    proof (cases r2)
      case (Inl e2)
      with assms a b Inr have "s1 = sb" by (simp add: read_and_time_def bind_exn_def)
      with va ca pa vb cb pb show ?thesis by auto
    next
      case r2: (Inr pv)
      with assms a b Inr have False by (simp add: read_and_time_def act_defs)
      then show ?thesis ..
    qed
  qed
qed


lemma iteration_reads_raise:
  assumes "read_and_time E s = (Inl e, s1)"
  shows "iteration E s =
     (if is_Exception e
      then emit (Logging WARNING (Str (''Main Loop Exception: '' @ exn_str e))) s1 else s1)"
  using assms by (simp add: iteration_def loop_body_def bind_exn_def)

lemma iteration_no_reads:
  assumes "\<not> reads_return E s"
  shows "filter is_send_pm (new_calls E s) = []" and "filter is_send_enviro (new_calls E s) = []"
    and "update_time (iteration E s) = update_time s"
    and "update_time2 (iteration E s) = update_time2 s"
proof -
  obtain r s1 where rt: "read_and_time E s = (r, s1)" by (cases "read_and_time E s")
  with assms obtain e where r: "r = Inl e" by (cases r) (auto simp: reads_return_def)
  from read_and_time_raises [of E s e s1] rt r obtain evs where
    v: "vars s1 = vars s" and c: "calls s1 = calls s @ evs" and p: "list_all is_sensor_call evs"
    by blast
  have it: "iteration E s =
     (if is_Exception e
      then emit (Logging WARNING (Str (''Main Loop Exception: '' @ exn_str e))) s1 else s1)"
    using rt r by (simp add: iteration_reads_raise)
  from it c p show "filter is_send_pm (new_calls E s) = []"
    and "filter is_send_enviro (new_calls E s) = []"
    by (simp_all add: new_calls_def emit_def sensor_calls_filters)
  from it v show "update_time (iteration E s) = update_time s"
    and "update_time2 (iteration E s) = update_time2 s"
    by (simp_all add: emit_def vars_def)
qed

lemma iteration_after_reads:
  assumes rt: "read_and_time E s = (Inr (ev, pv), s1)"
  shows "filter is_send_pm (new_calls E s) =
           (if 300 < elapsed_pm E s then [Send_pm_data pv] else [])"
    and "filter is_send_enviro (new_calls E s) =
           (if 900 < elapsed_enviro E s \<and> \<not> pm_step_raises E s then [Send_enviro_data ev] else [])"
    and "update_time (iteration E s) =
           (if 300 < elapsed_pm E s then time_time E (n_lib Time_time s + 2) else update_time s)"
    and "update_time2 (iteration E s) =
           (if 900 < elapsed_enviro E s \<and> \<not> pm_step_raises E s
            then time_time E (n_lib Time_time s + (if 300 < elapsed_pm E s then 3 else 2))
            else update_time2 s)"
proof -
  from read_and_time_returns [OF rt] obtain evs1 where
    c1: "calls s1 = calls s @ evs1 @ [Lib Time_time, Lib Time_time]"
    and p1: "list_all is_sensor_call evs1"
    and v1: "vars s1 = (elapsed_pm E s, update_time s, elapsed_enviro E s, update_time2 s)"
    by blast
  have n1: "n_lib Time_time s1 = n_lib Time_time s + 2"
    using c1 p1 by (simp add: n_lib_def no_clock_in_sensor_calls)
  obtain ra s2 where a: "air_quality_step E pv s1 = (ra, s2)"
    by (cases "air_quality_step E pv s1")
  from air_quality_step_effect [of E pv s1] a obtain evs2 where
    c2: "calls s2 = calls s1 @ evs2"
    and f2: "filter is_send_pm evs2 = (if 300 < time_since_update s1 then [Send_pm_data pv] else [])"
    and g2: "filter is_send_enviro evs2 = []"
    and k2: "count_list evs2 (Lib Time_time) = (if 300 < time_since_update s1 then 1 else 0)"
    and v2: "vars s2 = (time_since_update s1,
        if 300 < time_since_update s1 then time_time E (n_lib Time_time s1) else update_time s1,
        time_since_update2 s1, update_time2 s1)"
    by auto
  have n2: "n_lib Time_time s2 = n_lib Time_time s + (if 300 < elapsed_pm E s then 3 else 2)"
    using c2 k2 n1 v1 by (simp add: n_lib_def vars_def)
  have raises: "pm_step_raises E s = isl ra"
    using rt a by (simp add: pm_step_raises_def)
  obtain re s3 where b: "enviro_step E ev s2 = (re, s3)"
    by (cases "enviro_step E ev s2")
  from enviro_step_effect [of E ev s2] b obtain evs3 where
    c3: "calls s3 = calls s2 @ evs3"
    and f3: "filter is_send_enviro evs3 =
               (if 900 < time_since_update2 s2 then [Send_enviro_data ev] else [])"
    and g3: "filter is_send_pm evs3 = []"
    and v3: "vars s3 = (time_since_update s2, update_time s2, time_since_update2 s2,
        if 900 < time_since_update2 s2 then time_time E (n_lib Time_time s2) else update_time2 s2)"
    by auto
  let ?handle = "\<lambda>e s. if is_Exception e
    then emit (Logging WARNING (Str (''Main Loop Exception: '' @ exn_str e))) s else s"
  have it: "iteration E s =
      (case ra of Inl e \<Rightarrow> ?handle e s2
       | Inr u \<Rightarrow> (case re of Inl e \<Rightarrow> ?handle e s3 | Inr u \<Rightarrow> s3))"
    using rt a b by (simp add: iteration_def loop_body_def bind_exn_def split: sum.splits)
  have sens: "filter is_send_pm evs1 = []" "filter is_send_enviro evs1 = []"
    using p1 by (simp_all add: sensor_calls_filters)
  show "filter is_send_pm (new_calls E s) =
           (if 300 < elapsed_pm E s then [Send_pm_data pv] else [])"
    using it c1 c2 c3 f2 g3 v1 sens
    by (cases ra; cases re) (simp_all add: new_calls_def emit_def vars_def)
  show "filter is_send_enviro (new_calls E s) =
           (if 900 < elapsed_enviro E s \<and> \<not> pm_step_raises E s then [Send_enviro_data ev] else [])"
    using it c1 c2 c3 g2 f3 v1 v2 sens raises
    by (cases ra; cases re) (simp_all add: new_calls_def emit_def vars_def)
  show "update_time (iteration E s) =
           (if 300 < elapsed_pm E s then time_time E (n_lib Time_time s + 2) else update_time s)"
    using it v1 v2 v3 n1
    by (cases ra; cases re) (simp_all add: emit_def vars_def)
  show "update_time2 (iteration E s) =
           (if 900 < elapsed_enviro E s \<and> \<not> pm_step_raises E s
            then time_time E (n_lib Time_time s + (if 300 < elapsed_pm E s then 3 else 2))
            else update_time2 s)"
    using it v1 v2 v3 n2 raises
    by (cases ra; cases re) (simp_all add: emit_def vars_def)
qed

lemma has_fields_of_fields: "map fst v = ks \<Longrightarrow> has_fields ks v"
  by (auto simp: has_fields_def list_all_iff map_of_eq_None_iff)

lemma send_pm_data_returns:
  assumes "API_URL E = Some base" and "has_fields pm_fields v"
    and "\<forall>k r e. requests_post E k r = Inl e \<longrightarrow> is_RequestException e"
  shows "\<not> isl (fst (send_pm_data E v s))"
proof -
  have "pm_request E v = post E (pm_post base v)"
    using assms(1,2) by (auto simp: pm_request_complete)
  then show ?thesis
    using assms(3)
    by (cases "requests_post E (n_posts (emit (Send_pm_data v) s)) (pm_post base v)")
       (auto simp: send_pm_data_def send_data_post)
qed

lemma pm_step_returns:
  assumes "API_URL E \<noteq> None"
    and "\<forall>k r e. requests_post E k r = Inl e \<longrightarrow> is_RequestException e"
  shows "\<not> pm_step_raises E s"
proof (cases "read_and_time E s")
  case (Pair r s1)
  show ?thesis
  proof (cases r)
    case (Inl e)
    with Pair show ?thesis by (simp add: pm_step_raises_def)
  next
    case (Inr p)
    obtain ev pv where p: "p = (ev, pv)" by (cases p)
    from Pair Inr p have rt: "read_and_time E s = (Inr (ev, pv), s1)" by simp
    from read_and_time_returns(4) [OF rt] have hf: "has_fields pm_fields pv"
      by (rule has_fields_of_fields)
    from assms(1) obtain base where b: "API_URL E = Some base" by auto
    have "\<not> isl (fst (air_quality_step E pv s1))"
    proof (cases "300 < time_since_update s1")
      case True
      let ?s = "s1\<lparr>calls := calls s1 @ [Logging INFO (Dict pv), Lib Time_time],
          update_time := time_time E (n_lib Time_time s1)\<rparr>"
      from send_pm_data_returns [OF b hf assms(2), of ?s]
      show ?thesis
        by (cases "send_pm_data E pv ?s")
           (auto simp: air_quality_step_due [OF True] bind_exn_def logging_def split: sum.splits)
    next
      case False
      then show ?thesis by (simp add: air_quality_step_idle)
    qed
    with rt show ?thesis by (simp add: pm_step_raises_def)
  qed
qed

lemma no_url_pm_step_raises:
  assumes "API_URL E = None" and "reads_return E s" and "300 < elapsed_pm E s"
  shows "pm_step_raises E s"
proof -
  from assms(2) obtain ev pv s1 where rt: "read_and_time E s = (Inr (ev, pv), s1)"
    by (cases "read_and_time E s"; cases "fst (read_and_time E s)") (auto simp: reads_return_def)
  from read_and_time_returns(2) [OF rt] assms(3) have due: "300 < time_since_update s1"
    by (simp add: vars_def)
  from rt due assms(1) show ?thesis
    by (simp add: pm_step_raises_def air_quality_step_due send_pm_data_no_url bind_exn_def)
qed

lemma pm_send_occurs_iff:
  "pm_send_occurs E s \<longleftrightarrow> reads_return E s \<and> 300 < elapsed_pm E s"
proof (cases "reads_return E s")
  case True
  then obtain ev pv s1 where rt: "read_and_time E s = (Inr (ev, pv), s1)"
    by (cases "read_and_time E s"; cases "fst (read_and_time E s)") (auto simp: reads_return_def)
  have "pm_send_occurs E s \<longleftrightarrow> filter is_send_pm (new_calls E s) \<noteq> []"
    by (simp add: pm_send_occurs_def list_ex_iff filter_empty_conv)
  with True iteration_after_reads(1) [OF rt] show ?thesis by simp
next
  case False
  have "pm_send_occurs E s \<longleftrightarrow> filter is_send_pm (new_calls E s) \<noteq> []"
    by (simp add: pm_send_occurs_def list_ex_iff filter_empty_conv)
  with False iteration_no_reads(1) [OF False] show ?thesis by simp
qed

lemma enviro_send_occurs_iff:
  "enviro_send_occurs E s \<longleftrightarrow>
     reads_return E s \<and> 900 < elapsed_enviro E s \<and> \<not> pm_step_raises E s"
proof (cases "reads_return E s")
  case True
  then obtain ev pv s1 where rt: "read_and_time E s = (Inr (ev, pv), s1)"
    by (cases "read_and_time E s"; cases "fst (read_and_time E s)") (auto simp: reads_return_def)
  have "enviro_send_occurs E s \<longleftrightarrow> filter is_send_enviro (new_calls E s) \<noteq> []"
    by (simp add: enviro_send_occurs_def list_ex_iff filter_empty_conv)
  with True iteration_after_reads(2) [OF rt] show ?thesis by simp
next
  case False
  have "enviro_send_occurs E s \<longleftrightarrow> filter is_send_enviro (new_calls E s) \<noteq> []"
    by (simp add: enviro_send_occurs_def list_ex_iff filter_empty_conv)
  with False iteration_no_reads(2) [OF False] show ?thesis by simp
qed

lemma upload_calls_complete: "list_all is_upload_call evs \<Longrightarrow> list_all complete_call evs"
  by (induction evs) (auto elim: is_upload_call.elims)

lemma sensor_calls_complete: "list_all is_sensor_call evs \<Longrightarrow> list_all complete_call evs"
  by (induction evs) (auto elim: is_sensor_call.elims)

lemma air_quality_step_complete:
  assumes "map fst pv = pm_fields"
  shows "\<exists>evs. calls (snd (air_quality_step E pv s)) = calls s @ evs \<and> list_all complete_call evs"
proof (cases "300 < time_since_update s")
  case True
  from air_quality_step_due_summary [OF True, of E pv] obtain evs where
    "calls (snd (air_quality_step E pv s)) =
       calls s @ [Logging INFO (Dict pv), Lib Time_time, Send_pm_data pv] @ evs"
    and "list_all is_upload_call evs" by blast
  with assms show ?thesis by (simp add: upload_calls_complete)
next
  case False
  then show ?thesis by (simp add: air_quality_step_idle)
qed

lemma enviro_step_complete:
  assumes "map fst ev = enviro_fields"
  shows "\<exists>evs. calls (snd (enviro_step E ev s)) = calls s @ evs \<and> list_all complete_call evs"
proof (cases "900 < time_since_update2 s")
  case True
  from enviro_step_due_summary [OF True, of E ev] obtain evs where
    "calls (snd (enviro_step E ev s)) =
       calls s @ [Logging INFO (Dict ev), Lib Time_time, Send_enviro_data ev] @ evs"
    and "list_all is_upload_call evs" by blast
  with assms show ?thesis by (simp add: upload_calls_complete)
next
  case False
  then show ?thesis by (simp add: enviro_step_idle)
qed

lemma read_enviro_values_first_call:
  "\<exists>evs. calls (snd (read_enviro_values E s)) = calls s @ Lib Thermal_zone # evs"
  by (cases "thermal_zone E (n_lib Thermal_zone s)")
     (auto simp: read_enviro_values_def get_cpu_temperature_def act_defs split: sum.splits)

lemma read_and_time_first_call:
  "\<exists>evs. calls (snd (read_and_time E s)) = calls s @ Lib Thermal_zone # evs"
proof -
  obtain r1 sa where a: "read_enviro_values E s = (r1, sa)" by (cases "read_enviro_values E s")
  obtain r2 sb where b: "read_pm_values E sa = (r2, sb)" by (cases "read_pm_values E sa")
  from read_enviro_values_first_call [of E s] a obtain evs0 where
    ca: "calls sa = calls s @ Lib Thermal_zone # evs0" by auto
  from emits_read_pm_values [of E] b obtain evs2 where cb: "calls sb = calls sa @ evs2"
    unfolding emits_def by (metis snd_conv)
  show ?thesis
    using a b ca cb
    by (cases r1; cases r2) (auto simp: read_and_time_def act_defs)
qed

lemma loop_body_complete:
  "\<exists>evs. calls (snd (loop_body E s)) = calls s @ evs \<and> evs \<noteq> [] \<and> list_all complete_call evs"
proof (cases "read_and_time E s")
  case (Pair r s1)
  from read_and_time_first_call [of E s] Pair obtain evs0 where
    c0: "calls s1 = calls s @ Lib Thermal_zone # evs0" by auto
  show ?thesis
  proof (cases r)
    case (Inl e)
    with Pair read_and_time_raises [of E s e s1] obtain evs where
      c: "calls s1 = calls s @ evs" and p: "list_all is_sensor_call evs" by auto
    from c c0 have "evs \<noteq> []" by auto
    from Pair Inl have "loop_body E s = (Inl e, s1)" by (simp add: loop_body_def bind_exn_def)
    with c p \<open>evs \<noteq> []\<close> show ?thesis by (auto simp: sensor_calls_complete)
  next
    case (Inr p)
    obtain ev pv where p: "p = (ev, pv)" by (cases p)
    from Pair Inr p have rt: "read_and_time E s = (Inr (ev, pv), s1)" by simp
    from read_and_time_returns [OF rt] obtain evs1 where
      c1: "calls s1 = calls s @ evs1 @ [Lib Time_time, Lib Time_time]"
      and p1: "list_all is_sensor_call evs1"
      and fe: "map fst ev = enviro_fields" and fp: "map fst pv = pm_fields" by blast
    obtain ra s2 where a: "air_quality_step E pv s1 = (ra, s2)"
      by (cases "air_quality_step E pv s1")
    from air_quality_step_complete [OF fp, of E s1] a obtain evs2 where
      c2: "calls s2 = calls s1 @ evs2" and p2: "list_all complete_call evs2" by auto
    obtain re s3 where b: "enviro_step E ev s2 = (re, s3)"
      by (cases "enviro_step E ev s2")
    from enviro_step_complete [OF fe, of E s2] b obtain evs3 where
      c3: "calls s3 = calls s2 @ evs3" and p3: "list_all complete_call evs3" by auto
    have "snd (loop_body E s) = (case ra of Inl e \<Rightarrow> s2 | Inr u \<Rightarrow> s3)"
      using rt a b by (simp add: loop_body_def bind_exn_def split: sum.splits)
    with c1 c2 c3 p1 p2 p3 show ?thesis
      by (cases ra) (auto simp: sensor_calls_complete)
  qed
qed

lemma iteration_complete:
  "\<exists>evs. calls (iteration E s) = calls s @ evs \<and> evs \<noteq> [] \<and> list_all complete_call evs"
proof -
  obtain r s' where lb: "loop_body E s = (r, s')" by (cases "loop_body E s")
  from loop_body_complete [of E s] lb obtain evs where
    "calls s' = calls s @ evs" "evs \<noteq> []" "list_all complete_call evs" by auto
  with lb show ?thesis
    by (cases r) (auto simp: iteration_def emit_def)
qed

lemma calls_iteration: "calls (iteration E s) = calls s @ new_calls E s"
  using iteration_complete [of E s] by (auto simp: new_calls_def)

lemma main_loop_complete:
  "list_all complete_call (calls s) \<Longrightarrow> list_all complete_call (calls (main_loop E n s))"
proof (induction n arbitrary: s)
  case 0
  then show ?case by simp
next
  case (Suc n)
  from iteration_complete [of E s] Suc.prems
  have "list_all complete_call (calls (iteration E s))" by auto
  then show ?case by (simp add: Suc.IH)
qed

lemma main_loop_progress:
  "running E n s \<Longrightarrow> length (calls s) + n \<le> length (calls (main_loop E n s))"
proof (induction n arbitrary: s)
  case 0
  then show ?case by simp
next
  case (Suc n)
  from iteration_complete [of E s] have "length (calls s) < length (calls (iteration E s))"
    by auto
  with Suc.IH [of "iteration E s"] Suc.prems show ?case by simp
qed

lemma n_pm_sends_iteration:
  "n_pm_sends (iteration E s) = n_pm_sends s + length (filter is_send_pm (new_calls E s))"
  by (simp add: n_pm_sends_def calls_iteration)

lemma n_enviro_sends_iteration:
  "n_enviro_sends (iteration E s) = n_enviro_sends s + length (filter is_send_enviro (new_calls E s))"
  by (simp add: n_enviro_sends_def calls_iteration)

lemma n_pm_sends_mono: "n_pm_sends s \<le> n_pm_sends (main_loop E n s)"
proof (induction n arbitrary: s)
  case 0
  then show ?case by simp
next
  case (Suc n)
  from Suc.IH [of "iteration E s"] show ?case by (simp add: n_pm_sends_iteration)
qed

lemma n_enviro_sends_mono: "n_enviro_sends s \<le> n_enviro_sends (main_loop E n s)"
proof (induction n arbitrary: s)
  case 0
  then show ?case by simp
next
  case (Suc n)
  from Suc.IH [of "iteration E s"] show ?case by (simp add: n_enviro_sends_iteration)
qed

lemma pm_timer_kept:
  "\<not> pm_send_occurs E s \<Longrightarrow> update_time (iteration E s) = update_time s"
proof (cases "reads_return E s")
  case True
  assume n: "\<not> pm_send_occurs E s"
  from True obtain ev pv s1 where rt: "read_and_time E s = (Inr (ev, pv), s1)"
    by (cases "read_and_time E s"; cases "fst (read_and_time E s)") (auto simp: reads_return_def)
  from n True have "\<not> 300 < elapsed_pm E s" by (simp add: pm_send_occurs_iff)
  with iteration_after_reads(3) [OF rt] show ?thesis by simp
next
  case False
  then show ?thesis by (simp add: iteration_no_reads)
qed

lemma enviro_timer_kept:
  "\<not> enviro_send_occurs E s \<Longrightarrow> update_time2 (iteration E s) = update_time2 s"
proof (cases "reads_return E s")
  case True
  assume n: "\<not> enviro_send_occurs E s"
  from True obtain ev pv s1 where rt: "read_and_time E s = (Inr (ev, pv), s1)"
    by (cases "read_and_time E s"; cases "fst (read_and_time E s)") (auto simp: reads_return_def)
  from n True have "\<not> (900 < elapsed_enviro E s \<and> \<not> pm_step_raises E s)"
    by (simp add: enviro_send_occurs_iff)
  with iteration_after_reads(4) [OF rt] show ?thesis by simp
next
  case False
  then show ?thesis by (simp add: iteration_no_reads)
qed

lemma pm_timer_until_next_send:
  "n_pm_sends (main_loop E n s) = n_pm_sends s \<Longrightarrow>
   update_time (main_loop E n s) = update_time s"
proof (induction n arbitrary: s)
  case 0
  then show ?case by simp
next
  case (Suc n)
  have step: "update_time (iteration E s) = update_time s"
    if "n_pm_sends (iteration E s) = n_pm_sends s"
  proof -
    from that have "filter is_send_pm (new_calls E s) = []"
      by (simp add: n_pm_sends_iteration)
    then have "\<not> pm_send_occurs E s"
      by (simp add: pm_send_occurs_def list_ex_iff filter_empty_conv)
    then show ?thesis by (rule pm_timer_kept)
  qed
  show ?case
  proof (cases "stops E s")
    case True
    with Suc.prems step show ?thesis by simp
  next
    case False
    have m1: "n_pm_sends s \<le> n_pm_sends (iteration E s)"
      by (simp add: n_pm_sends_iteration)
    have m2: "n_pm_sends (iteration E s) \<le> n_pm_sends (main_loop E n (iteration E s))"
      by (rule n_pm_sends_mono)
    from Suc.prems False have "n_pm_sends (main_loop E n (iteration E s)) = n_pm_sends s"
      by simp
    with m1 m2 have e1: "n_pm_sends (iteration E s) = n_pm_sends s"
      and e2: "n_pm_sends (main_loop E n (iteration E s)) = n_pm_sends (iteration E s)"
      by simp_all
    from Suc.IH [OF e2] step [OF e1] False show ?thesis by simp
  qed
qed

lemma enviro_timer_until_next_send:
  "n_enviro_sends (main_loop E n s) = n_enviro_sends s \<Longrightarrow>
   update_time2 (main_loop E n s) = update_time2 s"
proof (induction n arbitrary: s)
  case 0
  then show ?case by simp
next
  case (Suc n)
  have step: "update_time2 (iteration E s) = update_time2 s"
    if "n_enviro_sends (iteration E s) = n_enviro_sends s"
  proof -
    from that have "filter is_send_enviro (new_calls E s) = []"
      by (simp add: n_enviro_sends_iteration)
    then have "\<not> enviro_send_occurs E s"
      by (simp add: enviro_send_occurs_def list_ex_iff filter_empty_conv)
    then show ?thesis by (rule enviro_timer_kept)
  qed
  show ?case
  proof (cases "stops E s")
    case True
    with Suc.prems step show ?thesis by simp
  next
    case False
    have m1: "n_enviro_sends s \<le> n_enviro_sends (iteration E s)"
      by (simp add: n_enviro_sends_iteration)
    have m2: "n_enviro_sends (iteration E s) \<le> n_enviro_sends (main_loop E n (iteration E s))"
      by (rule n_enviro_sends_mono)
    from Suc.prems False have "n_enviro_sends (main_loop E n (iteration E s)) = n_enviro_sends s"
      by simp
    with m1 m2 have e1: "n_enviro_sends (iteration E s) = n_enviro_sends s"
      and e2: "n_enviro_sends (main_loop E n (iteration E s)) = n_enviro_sends (iteration E s)"
      by simp_all
    from Suc.IH [OF e2] step [OF e1] False show ?thesis by simp
  qed
qed

lemmas read_defs = reads_return_def read_and_time_def read_pm_values_def read_enviro_values_def
  get_cpu_temperature_def

lemmas env_defs = quiet_env_def retry_env_def dead_env_def broken_env_def failing_env_def
  no_url_env_def state_at_def due_state_def overflow_env_def negzero_env_def
  interrupted_env_def

lemmas fmt_defs = zero_pad5_def fixed2_def round_half_even_def str_int_def py_int_def
  str_nat.simps to_float_def overflow_threshold_def

lemma pm_step_raises_due:
  assumes "pm_step_raises E s"
  shows "reads_return E s \<and> 300 < elapsed_pm E s"
proof (cases "read_and_time E s")
  case (Pair r s1)
  show ?thesis
  proof (cases r)
    case (Inl e)
    with Pair assms show ?thesis by (simp add: pm_step_raises_def)
  next
    case (Inr p)
    obtain ev pv where p: "p = (ev, pv)" by (cases p)
    from Pair Inr p have rt: "read_and_time E s = (Inr (ev, pv), s1)" by simp
    from rt assms have "isl (fst (air_quality_step E pv s1))" by (simp add: pm_step_raises_def)
    then have "300 < time_since_update s1"
      by (cases "300 < time_since_update s1") (simp_all add: air_quality_step_idle)
    with read_and_time_returns(2) [OF rt] rt show ?thesis
      by (simp add: vars_def reads_return_def)
  qed
qed

section \<open>Facts about the formatting\<close>

lemma digit_char:
  assumes "n < 10"
  shows "is_digit (''0123456789'' ! n)" and "digit_val (''0123456789'' ! n) = n"
proof -
  from assms have "n \<in> {0, 1, 2, 3, 4, 5, 6, 7, 8, 9}"
    by auto
  then show "is_digit (''0123456789'' ! n)" and "digit_val (''0123456789'' ! n) = n"
    by (auto simp: is_digit_def digit_val_def)
qed

lemma nat_of_digits_snoc:
  "nat_of_digits (cs @ [c]) = 10 * nat_of_digits cs + digit_val c"
  by (simp add: nat_of_digits_def)

lemma str_nat_digits: "list_all is_digit (str_nat n)"
proof (induction n rule: str_nat.induct)
  case (1 n)
  show ?case
  proof (cases "n < 10")
    case True
    then show ?thesis by (subst str_nat.simps) (simp add: digit_char)
  next
    case False
    with 1 show ?thesis by (subst str_nat.simps) (simp add: digit_char)
  qed
qed

lemma str_nat_nonempty: "str_nat n \<noteq> []"
  by (subst str_nat.simps) simp

lemma nat_of_digits_str_nat: "nat_of_digits (str_nat n) = n"
proof (induction n rule: str_nat.induct)
  case (1 n)
  show ?case
  proof (cases "n < 10")
    case True
    then have "str_nat n = [''0123456789'' ! n]" by (subst str_nat.simps) simp
    with True show ?thesis by (simp add: nat_of_digits_def digit_char)
  next
    case False
    then have "str_nat n = str_nat (n div 10) @ [''0123456789'' ! (n mod 10)]"
      by (subst str_nat.simps) simp
    with False 1 show ?thesis by (simp add: nat_of_digits_snoc digit_char)
  qed
qed




lemma py_int_truncates:
  "(0 \<le> x \<longrightarrow> 0 \<le> py_int x \<and> real_of_int (py_int x) \<le> x \<and> x < real_of_int (py_int x) + 1) \<and>
   (x < 0 \<longrightarrow> py_int x \<le> 0 \<and> x \<le> real_of_int (py_int x) \<and> real_of_int (py_int x) - 1 < x)"
proof -
  have "real_of_int \<lfloor>x\<rfloor> \<le> x" and "x < real_of_int \<lfloor>x\<rfloor> + 1" by linarith+
  moreover have "x \<le> real_of_int \<lceil>x\<rceil>" and "real_of_int \<lceil>x\<rceil> - 1 < x" by linarith+
  moreover have "x < 0 \<Longrightarrow> \<lceil>x\<rceil> \<le> 0" by (simp add: ceiling_le_iff)
  ultimately show ?thesis by (auto simp: py_int_def)
qed

lemma str_int_shape:
  "\<exists>ds. str_int i = (if i < 0 then ''-'' else '''') @ ds \<and> ds \<noteq> [] \<and>
        list_all is_digit ds \<and> int (nat_of_digits ds) = \<bar>i\<bar>"
  by (auto simp: str_int_def str_nat_nonempty str_nat_digits nat_of_digits_str_nat)





lemma read_enviro_values_returns:
  assumes "read_enviro_values E s = (Inr v, s')"
  shows "\<exists>mt raw p h g.
     thermal_zone E (n_lib Thermal_zone s) = Inr mt \<and>
     bme280_get_temperature E (n_lib Bme280_get_temperature s) = Inr raw \<and>
     bme280_get_pressure E (n_lib Bme280_get_pressure s) = Inr p \<and>
     bme280_get_humidity E (n_lib Bme280_get_humidity s) = Inr h \<and>
     gas_read_all E (n_lib Gas_read_all s) = Inr g \<and>
     v = [(''date'', datetime_now E (n_lib Datetime_now s)),
          (''temperature'', format_05_2f (ieee_sub E raw
              (ieee_div E (ieee_sub E (Float (float_div E (of_int mt) 1000)) raw) comp_factor))),
          (''pressure'', format_05_2f p),
          (''humidity'', format_05_2f h),
          (''oxidising'', str_int (py_int (float_div E (oxidising g) 1000))),
          (''reducing'', str_int (py_int (float_div E (reducing g) 1000))),
          (''nh3'', str_int (py_int (float_div E (nh3 g) 1000)))]"
  using assms
  by (auto simp: read_enviro_values_def get_cpu_temperature_def act_defs split: sum.splits)


section \<open>The particulate sensor: one reset and one retry\<close>

text \<open>
  Claim C3. When the first \<^verbatim>\<open>pms5003.read()\<close> of \<^verbatim>\<open>read_pm_values\<close> raises a timeout or a
  checksum mismatch, the function logs, resets the sensor once and reads once more: it
  returns the date and the three values of that second read, each as its decimal
  digits, or lets the second read's exception through, with no further reset or read.
  Any other exception of the first read propagates at once, with no reset. The history
  of calls shows the number and the order of the calls.
\<close>

theorem read_pm_values_one_retry:
  assumes "pms5003_read E (n_lib Pms5003_read s) = Inl e"
  shows "(is_pms_transient e \<and> pms5003_read E (Suc (n_lib Pms5003_read s)) = Inr pm \<longrightarrow>
            read_pm_values E s =
              (Inr [(''date'', datetime_now E (n_lib Datetime_now s)),
                    (''pm1'', str_nat (pm1 pm)),
                    (''pm25'', str_nat (pm25 pm)),
                    (''pm10'', str_nat (pm10 pm))],
               s\<lparr>calls := calls s @
                    [Lib Datetime_now, Lib Pms5003_read,
                     Logging INFO (Str ''Failed to read PMS5003. Reseting and retrying.''),
                     Lib Pms5003_reset, Lib Pms5003_read]\<rparr>)) \<and>
         (is_pms_transient e \<and> pms5003_read E (Suc (n_lib Pms5003_read s)) = Inl e2 \<longrightarrow>
            read_pm_values E s =
              (Inl e2,
               s\<lparr>calls := calls s @
                    [Lib Datetime_now, Lib Pms5003_read,
                     Logging INFO (Str ''Failed to read PMS5003. Reseting and retrying.''),
                     Lib Pms5003_reset, Lib Pms5003_read]\<rparr>)) \<and>
         (\<not> is_pms_transient e \<longrightarrow>
            read_pm_values E s =
              (Inl e, s\<lparr>calls := calls s @ [Lib Datetime_now, Lib Pms5003_read]\<rparr>)) \<and>
         str_nat n \<noteq> [] \<and> list_all is_digit (str_nat n) \<and> nat_of_digits (str_nat n) = n"
  using assms
  by (simp add: read_pm_values_def act_defs store_pm_def str_nat_nonempty str_nat_digits
      nat_of_digits_str_nat)

theorem read_pm_values_one_retry_witness:
  "pms5003_read retry_env (n_lib Pms5003_read (state_at 0 0)) = Inl (ReadTimeoutError ''timeout'') \<and>
   pms5003_read retry_env (Suc (n_lib Pms5003_read (state_at 0 0))) =
     Inr \<lparr>pm1 = 5, pm25 = 11, pm10 = 23\<rparr> \<and>
   read_pm_values retry_env (state_at 0 0) =
     (Inr [(''date'', ''03-11-2026 10:00''), (''pm1'', ''5''), (''pm25'', ''11''), (''pm10'', ''23'')],
      (state_at 0 0)\<lparr>calls :=
         [Lib Datetime_now, Lib Pms5003_read,
          Logging INFO (Str ''Failed to read PMS5003. Reseting and retrying.''),
          Lib Pms5003_reset, Lib Pms5003_read]\<rparr>) \<and>
   pms5003_read dead_env (n_lib Pms5003_read (state_at 0 0)) = Inl (ChecksumMismatchError ''first'') \<and>
   read_pm_values dead_env (state_at 0 0) =
     (Inl (ReadTimeoutError ''second''),
      (state_at 0 0)\<lparr>calls :=
         [Lib Datetime_now, Lib Pms5003_read,
          Logging INFO (Str ''Failed to read PMS5003. Reseting and retrying.''),
          Lib Pms5003_reset, Lib Pms5003_read]\<rparr>) \<and>
   pms5003_read broken_env (n_lib Pms5003_read (state_at 0 0)) =
     Inl (OtherException ''serial port closed'') \<and>
   read_pm_values broken_env (state_at 0 0) =
     (Inl (OtherException ''serial port closed''),
      (state_at 0 0)\<lparr>calls := [Lib Datetime_now, Lib Pms5003_read]\<rparr>)"
proof -
  have h1: "pms5003_read retry_env (n_lib Pms5003_read (state_at 0 0)) =
              Inl (ReadTimeoutError ''timeout'')"
    by (simp add: retry_env_def quiet_env_def state_at_def n_lib_def)
  have h2: "pms5003_read dead_env (n_lib Pms5003_read (state_at 0 0)) =
              Inl (ChecksumMismatchError ''first'')"
    by (simp add: dead_env_def quiet_env_def state_at_def n_lib_def)
  have h3: "pms5003_read broken_env (n_lib Pms5003_read (state_at 0 0)) =
              Inl (OtherException ''serial port closed'')"
    by (simp add: broken_env_def quiet_env_def state_at_def n_lib_def)
  show ?thesis
    using read_pm_values_one_retry [OF h1, of "\<lparr>pm1 = 5, pm25 = 11, pm10 = 23\<rparr>"]
      read_pm_values_one_retry [OF h2, of _ "ReadTimeoutError ''second''"]
      read_pm_values_one_retry [OF h3]
    by (simp add: retry_env_def dead_env_def broken_env_def quiet_env_def state_at_def
        n_lib_def str_nat.simps)
qed

section \<open>The uploader\<close>

text \<open>
  Claim C2. \<^verbatim>\<open>send_pm_data\<close> and \<^verbatim>\<open>send_enviro_data\<close> return \<open>True\<close> only when
  \<^verbatim>\<open>requests.post\<close> has returned a response whose \<^verbatim>\<open>ok\<close> is true; they never raise an
  exception of the \<^verbatim>\<open>RequestException\<close> family (connection error, timeout, any other
  request error); and with \<^verbatim>\<open>API_URL\<close> set and a reading that has its fields, the result
  follows the outcome of the request: \<open>True\<close> and no log on an ok response, \<open>False\<close> and
  exactly one warning that ends with the reason on a response that is not ok, \<open>False\<close> and
  exactly one warning on a request exception. The history shows each log entry.
\<close>

theorem uploader_outcomes:
  "(send_pm_data E values s = (Inr True, s') \<longrightarrow>
      (\<exists>r resp. requests_post E (n_posts s) r = Inr resp \<and> ok resp \<and>
         s' = s\<lparr>calls := calls s @ [Send_pm_data values, Requests_post r]\<rparr>)) \<and>
   (send_pm_data E values s = (Inl e, s') \<longrightarrow> \<not> is_RequestException e) \<and>
   (API_URL E = Some base \<and> has_fields pm_fields values \<longrightarrow>
      send_pm_data E values s =
        (case requests_post E (n_posts s) (pm_post base values) of
           Inr resp \<Rightarrow>
             if ok resp then
               (Inr True,
                s\<lparr>calls := calls s @ [Send_pm_data values, Requests_post (pm_post base values)]\<rparr>)
             else
               (Inr False,
                s\<lparr>calls := calls s @ [Send_pm_data values, Requests_post (pm_post base values),
                     Logging WARNING (Str (''Error. PM: '' @ reason resp))]\<rparr>)
         | Inl x \<Rightarrow>
             if is_RequestException x then
               (Inr False,
                s\<lparr>calls := calls s @ [Send_pm_data values, Requests_post (pm_post base values),
                     Logging WARNING (Str (pm_prefix x @ exn_str x))]\<rparr>)
             else
               (Inl x,
                s\<lparr>calls := calls s @ [Send_pm_data values, Requests_post (pm_post base values)]\<rparr>))) \<and>
   (send_enviro_data E values s = (Inr True, s') \<longrightarrow>
      (\<exists>r resp. requests_post E (n_posts s) r = Inr resp \<and> ok resp \<and>
         s' = s\<lparr>calls := calls s @ [Send_enviro_data values, Requests_post r]\<rparr>)) \<and>
   (send_enviro_data E values s = (Inl e, s') \<longrightarrow> \<not> is_RequestException e) \<and>
   (API_URL E = Some base \<and> has_fields enviro_fields values \<longrightarrow>
      send_enviro_data E values s =
        (case requests_post E (n_posts s) (enviro_post base values) of
           Inr resp \<Rightarrow>
             if ok resp then
               (Inr True,
                s\<lparr>calls := calls s @
                     [Send_enviro_data values, Requests_post (enviro_post base values)]\<rparr>)
             else
               (Inr False,
                s\<lparr>calls := calls s @
                     [Send_enviro_data values, Requests_post (enviro_post base values),
                      Logging WARNING (Str (''API Enviro Error. Enviro: '' @ reason resp))]\<rparr>)
         | Inl x \<Rightarrow>
             if is_RequestException x then
               (Inr False,
                s\<lparr>calls := calls s @
                     [Send_enviro_data values, Requests_post (enviro_post base values),
                      Logging WARNING (Str (enviro_prefix x @ exn_str x))]\<rparr>)
             else
               (Inl x,
                s\<lparr>calls := calls s @
                     [Send_enviro_data values, Requests_post (enviro_post base values)]\<rparr>)))"
proof (intro conjI impI)
  assume "send_pm_data E values s = (Inr True, s')"
  then obtain resp where "pm_request E values (emit (Send_pm_data values) s) = (Inr resp, s')"
    and "ok resp"
    unfolding send_pm_data_def by (blast dest: send_data_True)
  then show "\<exists>r resp. requests_post E (n_posts s) r = Inr resp \<and> ok resp \<and>
         s' = s\<lparr>calls := calls s @ [Send_pm_data values, Requests_post r]\<rparr>"
  proof -
    assume rq: "pm_request E values (emit (Send_pm_data values) s) = (Inr resp, s')" and "ok resp"
    from pm_request_returns [OF rq] obtain r where
      p: "requests_post E (n_posts (emit (Send_pm_data values) s)) r = Inr resp"
      and s': "s' = emit (Requests_post r) (emit (Send_pm_data values) s)" by blast
    from p have "requests_post E (n_posts s) r = Inr resp" by simp
    moreover from s' have "s' = s\<lparr>calls := calls s @ [Send_pm_data values, Requests_post r]\<rparr>"
      by (simp add: emit_def)
    ultimately show ?thesis using \<open>ok resp\<close> by blast
  qed
next
  assume "send_pm_data E values s = (Inl e, s')"
  then show "\<not> is_RequestException e"
    unfolding send_pm_data_def by (blast dest: send_data_raises)
next
  assume "API_URL E = Some base \<and> has_fields pm_fields values"
  then have "pm_request E values = post E (pm_post base values)"
    by (auto simp: pm_request_complete)
  then show "send_pm_data E values s =
        (case requests_post E (n_posts s) (pm_post base values) of
           Inr resp \<Rightarrow>
             if ok resp then
               (Inr True,
                s\<lparr>calls := calls s @ [Send_pm_data values, Requests_post (pm_post base values)]\<rparr>)
             else
               (Inr False,
                s\<lparr>calls := calls s @ [Send_pm_data values, Requests_post (pm_post base values),
                     Logging WARNING (Str (''Error. PM: '' @ reason resp))]\<rparr>)
         | Inl x \<Rightarrow>
             if is_RequestException x then
               (Inr False,
                s\<lparr>calls := calls s @ [Send_pm_data values, Requests_post (pm_post base values),
                     Logging WARNING (Str (pm_prefix x @ exn_str x))]\<rparr>)
             else
               (Inl x,
                s\<lparr>calls := calls s @ [Send_pm_data values, Requests_post (pm_post base values)]\<rparr>))"
    by (cases "requests_post E (n_posts s) (pm_post base values)")
       (simp_all add: send_pm_data_def send_data_post pm_prefix_def n_posts_def emit_def)
next
  assume "send_enviro_data E values s = (Inr True, s')"
  then obtain resp where
    "enviro_request E values (emit (Send_enviro_data values) s) = (Inr resp, s')" and "ok resp"
    unfolding send_enviro_data_def by (blast dest: send_data_True)
  then show "\<exists>r resp. requests_post E (n_posts s) r = Inr resp \<and> ok resp \<and>
         s' = s\<lparr>calls := calls s @ [Send_enviro_data values, Requests_post r]\<rparr>"
  proof -
    assume rq: "enviro_request E values (emit (Send_enviro_data values) s) = (Inr resp, s')" and "ok resp"
    from enviro_request_returns [OF rq] obtain r where
      p: "requests_post E (n_posts (emit (Send_enviro_data values) s)) r = Inr resp"
      and s': "s' = emit (Requests_post r) (emit (Send_enviro_data values) s)" by blast
    from p have "requests_post E (n_posts s) r = Inr resp" by simp
    moreover from s' have "s' = s\<lparr>calls := calls s @ [Send_enviro_data values, Requests_post r]\<rparr>"
      by (simp add: emit_def)
    ultimately show ?thesis using \<open>ok resp\<close> by blast
  qed
next
  assume "send_enviro_data E values s = (Inl e, s')"
  then show "\<not> is_RequestException e"
    unfolding send_enviro_data_def by (blast dest: send_data_raises)
next
  assume "API_URL E = Some base \<and> has_fields enviro_fields values"
  then have "enviro_request E values = post E (enviro_post base values)"
    by (auto simp: enviro_request_complete)
  then show "send_enviro_data E values s =
        (case requests_post E (n_posts s) (enviro_post base values) of
           Inr resp \<Rightarrow>
             if ok resp then
               (Inr True,
                s\<lparr>calls := calls s @
                     [Send_enviro_data values, Requests_post (enviro_post base values)]\<rparr>)
             else
               (Inr False,
                s\<lparr>calls := calls s @
                     [Send_enviro_data values, Requests_post (enviro_post base values),
                      Logging WARNING (Str (''API Enviro Error. Enviro: '' @ reason resp))]\<rparr>)
         | Inl x \<Rightarrow>
             if is_RequestException x then
               (Inr False,
                s\<lparr>calls := calls s @
                     [Send_enviro_data values, Requests_post (enviro_post base values),
                      Logging WARNING (Str (enviro_prefix x @ exn_str x))]\<rparr>)
             else
               (Inl x,
                s\<lparr>calls := calls s @
                     [Send_enviro_data values, Requests_post (enviro_post base values)]\<rparr>))"
    by (cases "requests_post E (n_posts s) (enviro_post base values)")
       (simp_all add: send_enviro_data_def send_data_post enviro_prefix_def n_posts_def emit_def)
qed

theorem uploader_outcomes_witness:
  "API_URL failing_env = Some ''http://api.example'' \<and>
   has_fields pm_fields pm_example \<and> has_fields enviro_fields enviro_example \<and>
   send_pm_data failing_env pm_example (state_at 0 0) =
     (Inr False,
      (state_at 0 0)\<lparr>calls :=
         [Send_pm_data pm_example, Requests_post (pm_post ''http://api.example'' pm_example),
          Logging WARNING (Str ''Error. PM: Internal Server Error'')]\<rparr>) \<and>
   send_enviro_data failing_env enviro_example
       ((state_at 0 0)\<lparr>calls := [Requests_post (pm_post ''http://api.example'' pm_example)]\<rparr>) =
     (Inr False,
      (state_at 0 0)\<lparr>calls :=
         [Requests_post (pm_post ''http://api.example'' pm_example),
          Send_enviro_data enviro_example,
          Requests_post (enviro_post ''http://api.example'' enviro_example),
          Logging WARNING (Str ''API Enviro Connection Error: connect timed out'')]\<rparr>) \<and>
   send_pm_data quiet_env pm_example (state_at 0 0) =
     (Inr True,
      (state_at 0 0)\<lparr>calls :=
         [Send_pm_data pm_example, Requests_post (pm_post ''http://api.example'' pm_example)]\<rparr>) \<and>
   send_enviro_data quiet_env enviro_example (state_at 0 0) =
     (Inr True,
      (state_at 0 0)\<lparr>calls :=
         [Send_enviro_data enviro_example,
          Requests_post (enviro_post ''http://api.example'' enviro_example)]\<rparr>) \<and>
   send_enviro_data no_url_env enviro_example (state_at 0 0) =
     (Inl (TypeError none_plus_str), (state_at 0 0)\<lparr>calls := [Send_enviro_data enviro_example]\<rparr>) \<and>
   send_pm_data no_url_env pm_example (state_at 0 0) =
     (Inl (TypeError none_plus_str), (state_at 0 0)\<lparr>calls := [Send_pm_data pm_example]\<rparr>) \<and>
   \<not> is_RequestException (TypeError none_plus_str)"
proof -
  have u: "API_URL failing_env = Some ''http://api.example''"
    "API_URL quiet_env = Some ''http://api.example''"
    by (simp_all add: failing_env_def quiet_env_def)
  have f: "has_fields pm_fields pm_example" "has_fields enviro_fields enviro_example"
    by (simp_all add: has_fields_def pm_fields_def pm_example_def enviro_fields_def
        enviro_example_def)
  have r: "send_enviro_data no_url_env enviro_example (state_at 0 0) =
     (Inl (TypeError none_plus_str), (state_at 0 0)\<lparr>calls := [Send_enviro_data enviro_example]\<rparr>)"
    by (simp add: send_enviro_data_def send_data_def enviro_request_def api_path_def
        no_url_env_def quiet_env_def state_at_def act_defs)
  have r2: "send_pm_data no_url_env pm_example (state_at 0 0) =
     (Inl (TypeError none_plus_str), (state_at 0 0)\<lparr>calls := [Send_pm_data pm_example]\<rparr>)"
    by (simp add: send_pm_data_def send_data_def pm_request_def api_path_def
        no_url_env_def quiet_env_def state_at_def act_defs)
  show ?thesis
    using u f r r2
      uploader_outcomes [of quiet_env enviro_example "state_at 0 0" _ _ "''http://api.example''"]
      uploader_outcomes [of no_url_env pm_example "state_at 0 0"
        "(state_at 0 0)\<lparr>calls := [Send_pm_data pm_example]\<rparr>"
        "TypeError none_plus_str"]
      uploader_outcomes [of failing_env pm_example "state_at 0 0" _ _ "''http://api.example''"]
      uploader_outcomes [of failing_env enviro_example
        "(state_at 0 0)\<lparr>calls := [Requests_post (pm_post ''http://api.example'' pm_example)]\<rparr>"
        _ _ "''http://api.example''"]
      uploader_outcomes [of quiet_env pm_example "state_at 0 0" _ _ "''http://api.example''"]
      uploader_outcomes [of no_url_env enviro_example "state_at 0 0"
        "(state_at 0 0)\<lparr>calls := [Send_enviro_data enviro_example]\<rparr>"
        "TypeError none_plus_str"]
    by (simp add: failing_env_def quiet_env_def state_at_def n_posts_def pm_prefix_def
        enviro_prefix_def)
qed

text \<open>
  Claim C9, as stated, fails: with \<^verbatim>\<open>API_URL\<close> absent, \<^verbatim>\<open>send_pm_data\<close> does not return
  \<open>False\<close>, makes no request and logs no warning.
\<close>

theorem absent_api_url_counterexample:
  "API_URL no_url_env = None \<and>
   fst (send_pm_data no_url_env pm_example (state_at 0 0)) \<noteq> Inr False \<and>
   \<not> list_ex is_post (calls (snd (send_pm_data no_url_env pm_example (state_at 0 0)))) \<and>
   \<not> list_ex is_warning (calls (snd (send_pm_data no_url_env pm_example (state_at 0 0))))"
proof -
  have "API_URL no_url_env = None" by (simp add: no_url_env_def)
  then show ?thesis
    by (simp add: send_pm_data_no_url emit_def state_at_def)
qed

text \<open>
  Claim C9, amended. With \<^verbatim>\<open>API_URL\<close> absent, every call of \<^verbatim>\<open>send_pm_data\<close> and of
  \<^verbatim>\<open>send_enviro_data\<close> raises the \<^verbatim>\<open>TypeError\<close> of \<^verbatim>\<open>None + str\<close> right after its
  entry: no request is made, nothing is logged and no value is returned. The exception
  leaves the block of the loop that made the call; an iteration whose reads return and
  in which a send is due ends in the handler of the loop, which logs the exception as a
  warning and does not stop the process.
\<close>

theorem absent_api_url_raises:
  assumes "API_URL E = None"
  shows "send_pm_data E values s = (Inl (TypeError none_plus_str), emit (Send_pm_data values) s) \<and>
         send_enviro_data E values s =
           (Inl (TypeError none_plus_str), emit (Send_enviro_data values) s) \<and>
         (300 < time_since_update s \<longrightarrow>
            fst (air_quality_step E values s) = Inl (TypeError none_plus_str)) \<and>
         (900 < time_since_update2 s \<longrightarrow>
            fst (enviro_step E values s) = Inl (TypeError none_plus_str)) \<and>
         (reads_return E s \<and> (300 < elapsed_pm E s \<or> 900 < elapsed_enviro E s) \<longrightarrow>
            fst (loop_body E s) = Inl (TypeError none_plus_str) \<and>
            \<not> stops E s \<and>
            iteration E s =
              emit (Logging WARNING (Str (''Main Loop Exception: '' @ none_plus_str)))
                (snd (loop_body E s)))"
proof -
  have steps: "send_pm_data E values s = (Inl (TypeError none_plus_str), emit (Send_pm_data values) s) \<and>
         send_enviro_data E values s =
           (Inl (TypeError none_plus_str), emit (Send_enviro_data values) s) \<and>
         (300 < time_since_update s \<longrightarrow>
            fst (air_quality_step E values s) = Inl (TypeError none_plus_str)) \<and>
         (900 < time_since_update2 s \<longrightarrow>
            fst (enviro_step E values s) = Inl (TypeError none_plus_str))"
    using assms
    by (simp add: send_pm_data_no_url send_enviro_data_no_url air_quality_step_due
        enviro_step_due bind_exn_def)
  have body: "fst (loop_body E s) = Inl (TypeError none_plus_str)"
    if r: "reads_return E s" and d: "300 < elapsed_pm E s \<or> 900 < elapsed_enviro E s"
  proof -
    from r obtain ev pv s1 where rt: "read_and_time E s = (Inr (ev, pv), s1)"
      by (cases "read_and_time E s"; cases "fst (read_and_time E s)")
         (auto simp: reads_return_def)
    from read_and_time_returns(2) [OF rt]
    have t: "time_since_update s1 = elapsed_pm E s" "time_since_update2 s1 = elapsed_enviro E s"
      by (simp_all add: vars_def)
    show ?thesis
    proof (cases "300 < elapsed_pm E s")
      case True
      with t rt assms show ?thesis
        by (simp add: loop_body_def bind_exn_def air_quality_step_due send_pm_data_no_url)
    next
      case False
      with d have "900 < elapsed_enviro E s" by simp
      with False t rt assms show ?thesis
        by (simp add: loop_body_def bind_exn_def air_quality_step_idle enviro_step_due
            send_enviro_data_no_url)
    qed
  qed
  have handler: "\<not> stops E s \<and>
      iteration E s =
        emit (Logging WARNING (Str (''Main Loop Exception: '' @ none_plus_str)))
          (snd (loop_body E s))"
    if "fst (loop_body E s) = Inl (TypeError none_plus_str)"
    using that by (cases "loop_body E s") (simp add: stops_def iteration_def)
  from steps body handler show ?thesis by blast
qed

theorem absent_api_url_raises_witness:
  "API_URL no_url_env = None \<and>
   send_pm_data no_url_env pm_example due_state =
     (Inl (TypeError none_plus_str), emit (Send_pm_data pm_example) due_state) \<and>
   send_enviro_data no_url_env enviro_example due_state =
     (Inl (TypeError none_plus_str), emit (Send_enviro_data enviro_example) due_state) \<and>
   300 < time_since_update due_state \<and>
   fst (air_quality_step no_url_env pm_example due_state) = Inl (TypeError none_plus_str) \<and>
   900 < time_since_update2 due_state \<and>
   fst (enviro_step no_url_env enviro_example due_state) = Inl (TypeError none_plus_str) \<and>
   reads_return no_url_env (state_at 0 0) \<and>
   300 < elapsed_pm no_url_env (state_at 0 0) \<and>
   loop_body no_url_env (state_at 0 0) =
     (Inl (TypeError none_plus_str),
      (state_at 0 0)\<lparr>time_since_update := 1000, time_since_update2 := 1000,
         update_time := 1000,
         calls := [Lib Thermal_zone, Lib Bme280_get_temperature, Lib Datetime_now,
           Lib Bme280_get_pressure, Lib Bme280_get_humidity, Lib Gas_read_all,
           Lib Datetime_now, Lib Pms5003_read, Lib Time_time, Lib Time_time,
           Logging INFO (Dict pm_example), Lib Time_time, Send_pm_data pm_example]\<rparr>) \<and>
   \<not> stops no_url_env (state_at 0 0) \<and>
   iteration no_url_env (state_at 0 0) =
     (state_at 0 0)\<lparr>time_since_update := 1000, time_since_update2 := 1000,
         update_time := 1000,
         calls := [Lib Thermal_zone, Lib Bme280_get_temperature, Lib Datetime_now,
           Lib Bme280_get_pressure, Lib Bme280_get_humidity, Lib Gas_read_all,
           Lib Datetime_now, Lib Pms5003_read, Lib Time_time, Lib Time_time,
           Logging INFO (Dict pm_example), Lib Time_time, Send_pm_data pm_example,
           Logging WARNING (Str (''Main Loop Exception: '' @ none_plus_str))]\<rparr> \<and>
   reads_return no_url_env (state_at 800 0) \<and>
   900 < elapsed_enviro no_url_env (state_at 800 0) \<and>
   fst (loop_body no_url_env (state_at 800 0)) = Inl (TypeError none_plus_str)"
proof -
  have h: "API_URL no_url_env = None" by (simp add: no_url_env_def)
  have r: "reads_return no_url_env (state_at 0 0)" "reads_return no_url_env (state_at 800 0)"
    by (simp_all add: read_defs act_defs env_defs)
  have e: "300 < elapsed_pm no_url_env (state_at 0 0)"
    "900 < elapsed_enviro no_url_env (state_at 800 0)"
    by (simp_all add: elapsed_pm_def elapsed_enviro_def n_lib_def env_defs)
  have b: "loop_body no_url_env (state_at 0 0) =
     (Inl (TypeError none_plus_str),
      (state_at 0 0)\<lparr>time_since_update := 1000, time_since_update2 := 1000,
         update_time := 1000,
         calls := [Lib Thermal_zone, Lib Bme280_get_temperature, Lib Datetime_now,
           Lib Bme280_get_pressure, Lib Bme280_get_humidity, Lib Gas_read_all,
           Lib Datetime_now, Lib Pms5003_read, Lib Time_time, Lib Time_time,
           Logging INFO (Dict pm_example), Lib Time_time, Send_pm_data pm_example]\<rparr>)"
    apply (simp add: loop_body_def air_quality_step_def read_defs act_defs env_defs
        send_pm_data_def send_data_def pm_request_def api_path_def store_pm_def pm_example_def)
    apply (simp add: fmt_defs)
    done
  note t1 = absent_api_url_raises [OF h, of pm_example due_state]
  note t2 = absent_api_url_raises [OF h, of enviro_example due_state]
  note t3 = absent_api_url_raises [OF h, of _ "state_at 0 0"]
  note t4 = absent_api_url_raises [OF h, of _ "state_at 800 0"]
  have d: "300 < time_since_update due_state" "900 < time_since_update2 due_state"
    by (simp_all add: due_state_def state_at_def)
  from t3 r(1) e(1) have i: "\<not> stops no_url_env (state_at 0 0)"
    "iteration no_url_env (state_at 0 0) =
       emit (Logging WARNING (Str (''Main Loop Exception: '' @ none_plus_str)))
         (snd (loop_body no_url_env (state_at 0 0)))"
    by blast+
  from i(2) have i2: "iteration no_url_env (state_at 0 0) =
     (state_at 0 0)\<lparr>time_since_update := 1000, time_since_update2 := 1000,
         update_time := 1000,
         calls := [Lib Thermal_zone, Lib Bme280_get_temperature, Lib Datetime_now,
           Lib Bme280_get_pressure, Lib Bme280_get_humidity, Lib Gas_read_all,
           Lib Datetime_now, Lib Pms5003_read, Lib Time_time, Lib Time_time,
           Logging INFO (Dict pm_example), Lib Time_time, Send_pm_data pm_example,
           Logging WARNING (Str (''Main Loop Exception: '' @ none_plus_str))]\<rparr>"
    unfolding b by (simp add: emit_def state_at_def)
  from t4 r(2) e(2) have j: "fst (loop_body no_url_env (state_at 800 0)) = Inl (TypeError none_plus_str)"
    by blast
  from t1 have s1: "send_pm_data no_url_env pm_example due_state =
     (Inl (TypeError none_plus_str), emit (Send_pm_data pm_example) due_state)" by blast
  from t2 have s2: "send_enviro_data no_url_env enviro_example due_state =
     (Inl (TypeError none_plus_str), emit (Send_enviro_data enviro_example) due_state)" by blast
  from t1 d have s3: "fst (air_quality_step no_url_env pm_example due_state) =
      Inl (TypeError none_plus_str)" by blast
  from t2 d have s4: "fst (enviro_step no_url_env enviro_example due_state) =
      Inl (TypeError none_plus_str)" by blast
  from h d r e b i(1) i2 j s1 s2 s3 s4 show ?thesis by blast
qed

section \<open>The scheduler: when a send occurs\<close>

text \<open>
  Claim C1, as stated, fails. With \<^verbatim>\<open>API_URL\<close> absent, an iteration whose reads return
  and whose enviro elapsed time is 1000 seconds makes no enviro send: the air-quality send
  of the same iteration has raised and the rest of the \<^verbatim>\<open>try\<close> block is skipped. With a
  particulate sensor that raises, 1000 seconds after the last reset no air-quality send
  occurs.
\<close>

theorem scheduler_sends_counterexample:
  "reads_return no_url_env (state_at 0 0) \<and>
   900 < elapsed_enviro no_url_env (state_at 0 0) \<and>
   \<not> enviro_send_occurs no_url_env (state_at 0 0) \<and>
   300 < elapsed_pm broken_env (state_at 0 0) \<and>
   \<not> pm_send_occurs broken_env (state_at 0 0)"
proof -
  have r: "reads_return no_url_env (state_at 0 0)"
    by (simp add: read_defs act_defs env_defs)
  have e: "900 < elapsed_enviro no_url_env (state_at 0 0)"
    "300 < elapsed_pm no_url_env (state_at 0 0)"
    "300 < elapsed_pm broken_env (state_at 0 0)"
    by (simp_all add: elapsed_enviro_def elapsed_pm_def n_lib_def env_defs)
  have u: "API_URL no_url_env = None" by (simp add: env_defs)
  have "pm_step_raises no_url_env (state_at 0 0)"
    using u r e(2) by (rule no_url_pm_step_raises)
  then have n1: "\<not> enviro_send_occurs no_url_env (state_at 0 0)"
    by (simp add: enviro_send_occurs_iff)
  have "\<not> reads_return broken_env (state_at 0 0)"
    by (simp add: read_defs act_defs env_defs)
  then have n2: "\<not> pm_send_occurs broken_env (state_at 0 0)"
    by (simp add: pm_send_occurs_iff)
  from r e n1 n2 show ?thesis by simp
qed

text \<open>
  Claim C1, amended. In an iteration, a call of \<^verbatim>\<open>send_pm_data\<close> occurs exactly when the
  two sensor reads return and the elapsed time the iteration computes for the
  air-quality timer exceeds 300; a call of \<^verbatim>\<open>send_enviro_data\<close> occurs exactly when the
  reads return, the elapsed time for the enviro timer exceeds 900 and the air-quality
  block has not raised, which it cannot do when \<^verbatim>\<open>API_URL\<close> is set and \<^verbatim>\<open>requests.post\<close>
  raises only request exceptions. So no send of either kind occurs before its threshold
  is exceeded.
\<close>

theorem scheduler_sends:
  "(pm_send_occurs E s \<longleftrightarrow> reads_return E s \<and> 300 < elapsed_pm E s) \<and>
   (enviro_send_occurs E s \<longleftrightarrow>
      reads_return E s \<and> 900 < elapsed_enviro E s \<and> \<not> pm_step_raises E s) \<and>
   (API_URL E \<noteq> None \<and> (\<forall>k r e. requests_post E k r = Inl e \<longrightarrow> is_RequestException e) \<longrightarrow>
      \<not> pm_step_raises E s)"
  using pm_send_occurs_iff [of E s] enviro_send_occurs_iff [of E s] pm_step_returns [of E s]
  by blast

theorem scheduler_sends_witness:
  "API_URL quiet_env \<noteq> None \<and>
   \<not> pm_step_raises quiet_env (state_at 0 0) \<and>
   reads_return quiet_env (state_at 0 0) \<and>
   300 < elapsed_pm quiet_env (state_at 0 0) \<and>
   900 < elapsed_enviro quiet_env (state_at 0 0) \<and>
   pm_send_occurs quiet_env (state_at 0 0) \<and>
   enviro_send_occurs quiet_env (state_at 0 0) \<and>
   elapsed_pm quiet_env (state_at 700 100) = 300 \<and>
   elapsed_enviro quiet_env (state_at 700 100) = 900 \<and>
   \<not> pm_send_occurs quiet_env (state_at 700 100) \<and>
   \<not> enviro_send_occurs quiet_env (state_at 700 100)"
proof -
  have u: "API_URL quiet_env \<noteq> None"
    "\<forall>k r e. requests_post quiet_env k r = Inl e \<longrightarrow> is_RequestException e"
    by (simp_all add: env_defs)
  have r: "reads_return quiet_env (state_at 0 0)"
    by (simp add: read_defs act_defs env_defs)
  have e: "300 < elapsed_pm quiet_env (state_at 0 0)"
    "900 < elapsed_enviro quiet_env (state_at 0 0)"
    "elapsed_pm quiet_env (state_at 700 100) = 300"
    "elapsed_enviro quiet_env (state_at 700 100) = 900"
    by (simp_all add: elapsed_enviro_def elapsed_pm_def n_lib_def env_defs)
  show ?thesis
    using u r e scheduler_sends [of quiet_env "state_at 0 0"]
      scheduler_sends [of quiet_env "state_at 700 100"]
    by simp
qed

section \<open>The scheduler: timers and frame\<close>

text \<open>
  Claim C5. A block that attempts a send sets its own timer to the clock reading it takes
  and leaves the other timer alone, whatever the upload does (return \<open>True\<close>, return
  \<open>False\<close> or raise); an iteration changes a timer only if it sends that kind of
  reading. With 301 seconds elapsed for air quality and 500 for enviro, the iteration
  calls \<^verbatim>\<open>send_pm_data\<close> once and \<^verbatim>\<open>send_enviro_data\<close> never, resets the air-quality
  timer and leaves the enviro timer as it was.
\<close>

theorem timers_reset_and_frame:
  "(300 < time_since_update s \<longrightarrow>
      update_time (snd (air_quality_step E pv s)) = time_time E (n_lib Time_time s) \<and>
      update_time2 (snd (air_quality_step E pv s)) = update_time2 s) \<and>
   (900 < time_since_update2 s \<longrightarrow>
      update_time2 (snd (enviro_step E ev s)) = time_time E (n_lib Time_time s) \<and>
      update_time (snd (enviro_step E ev s)) = update_time s) \<and>
   (\<not> pm_send_occurs E s \<longrightarrow> update_time (iteration E s) = update_time s) \<and>
   (\<not> enviro_send_occurs E s \<longrightarrow> update_time2 (iteration E s) = update_time2 s) \<and>
   (reads_return E s \<and> elapsed_pm E s = 301 \<and> elapsed_enviro E s = 500 \<longrightarrow>
      length (filter is_send_pm (new_calls E s)) = 1 \<and>
      length (filter is_send_enviro (new_calls E s)) = 0 \<and>
      update_time (iteration E s) = time_time E (n_lib Time_time s + 2) \<and>
      update_time2 (iteration E s) = update_time2 s)"
proof (intro conjI impI)
  assume d: "300 < time_since_update s"
  from air_quality_step_effect [of E pv s] d
  show "update_time (snd (air_quality_step E pv s)) = time_time E (n_lib Time_time s)"
    and "update_time2 (snd (air_quality_step E pv s)) = update_time2 s"
    by (auto simp: vars_def)
next
  assume d: "900 < time_since_update2 s"
  from enviro_step_effect [of E ev s] d
  show "update_time2 (snd (enviro_step E ev s)) = time_time E (n_lib Time_time s)"
    and "update_time (snd (enviro_step E ev s)) = update_time s"
    by (auto simp: vars_def)
next
  assume "\<not> pm_send_occurs E s"
  then show "update_time (iteration E s) = update_time s" by (rule pm_timer_kept)
next
  assume "\<not> enviro_send_occurs E s"
  then show "update_time2 (iteration E s) = update_time2 s" by (rule enviro_timer_kept)
next
  assume a: "reads_return E s \<and> elapsed_pm E s = 301 \<and> elapsed_enviro E s = 500"
  then obtain ev' pv' s1 where rt: "read_and_time E s = (Inr (ev', pv'), s1)"
    by (cases "read_and_time E s"; cases "fst (read_and_time E s)") (auto simp: reads_return_def)
  from a iteration_after_reads [OF rt]
  show "length (filter is_send_pm (new_calls E s)) = 1"
    and "length (filter is_send_enviro (new_calls E s)) = 0"
    and "update_time (iteration E s) = time_time E (n_lib Time_time s + 2)"
    and "update_time2 (iteration E s) = update_time2 s"
    by simp_all
qed

theorem timers_reset_and_frame_witness:
  "300 < time_since_update due_state \<and>
   update_time (snd (air_quality_step failing_env pm_example due_state)) = 1000 \<and>
   update_time2 (snd (air_quality_step failing_env pm_example due_state)) = 0 \<and>
   900 < time_since_update2 due_state \<and>
   update_time2 (snd (enviro_step quiet_env enviro_example due_state)) = 1000 \<and>
   update_time (snd (enviro_step quiet_env enviro_example due_state)) = 0 \<and>
   \<not> pm_send_occurs quiet_env (state_at 800 500) \<and>
   update_time (iteration quiet_env (state_at 800 500)) = 800 \<and>
   reads_return quiet_env (state_at 699 500) \<and>
   elapsed_pm quiet_env (state_at 699 500) = 301 \<and>
   elapsed_enviro quiet_env (state_at 699 500) = 500 \<and>
   \<not> enviro_send_occurs quiet_env (state_at 699 500) \<and>
   length (filter is_send_pm (new_calls quiet_env (state_at 699 500))) = 1 \<and>
   length (filter is_send_enviro (new_calls quiet_env (state_at 699 500))) = 0 \<and>
   update_time (iteration quiet_env (state_at 699 500)) = 1000 \<and>
   update_time2 (iteration quiet_env (state_at 699 500)) = 500"
proof -
  have d: "300 < time_since_update due_state" "900 < time_since_update2 due_state"
    by (simp_all add: env_defs)
  have r: "reads_return quiet_env (state_at 699 500)"
    by (simp add: read_defs act_defs env_defs)
  have e: "elapsed_pm quiet_env (state_at 699 500) = 301"
    "elapsed_enviro quiet_env (state_at 699 500) = 500"
    "\<not> 300 < elapsed_pm quiet_env (state_at 800 500)"
    by (simp_all add: elapsed_enviro_def elapsed_pm_def n_lib_def env_defs)
  have n: "\<not> pm_send_occurs quiet_env (state_at 800 500)"
    "\<not> enviro_send_occurs quiet_env (state_at 699 500)"
    using e by (simp_all add: pm_send_occurs_iff enviro_send_occurs_iff)
  show ?thesis
    using d r e n
      timers_reset_and_frame [of due_state failing_env pm_example]
      timers_reset_and_frame [of due_state quiet_env _ enviro_example]
      timers_reset_and_frame [of "state_at 800 500" quiet_env]
      timers_reset_and_frame [of "state_at 699 500" quiet_env]
    by (simp add: env_defs n_lib_def)
qed

section \<open>Readings are complete\<close>

text \<open>
  Claim C6. A reading returned by \<^verbatim>\<open>read_enviro_values\<close> has exactly the fields date,
  temperature, pressure, humidity, oxidising, reducing, nh3, and one returned by
  \<^verbatim>\<open>read_pm_values\<close> exactly date, pm1, pm25, pm10; the values are strings by the type of
  a reading. In every state the loop reaches from the start, each call of
  \<^verbatim>\<open>send_pm_data\<close> and \<^verbatim>\<open>send_enviro_data\<close> in the history was given a reading with all
  the fields of its kind, and so was each request.
\<close>

theorem readings_complete:
  "(read_enviro_values E s = (Inr v, s') \<longrightarrow> map fst v = enviro_fields) \<and>
   (read_pm_values E s = (Inr v, s') \<longrightarrow> map fst v = pm_fields) \<and>
   list_all complete_call (calls (main_loop E n (startup E))) \<and>
   (list_all complete_call (calls s) \<longrightarrow> list_all complete_call (calls (main_loop E n s)))"
proof (intro conjI impI)
  assume "read_enviro_values E s = (Inr v, s')"
  then show "map fst v = enviro_fields" by (rule read_enviro_values_fields)
next
  assume "read_pm_values E s = (Inr v, s')"
  then show "map fst v = pm_fields" by (rule read_pm_values_fields)
next
  have "list_all complete_call (calls (startup E))" by (simp add: startup_def)
  then show "list_all complete_call (calls (main_loop E n (startup E)))"
    by (rule main_loop_complete)
next
  assume "list_all complete_call (calls s)"
  then show "list_all complete_call (calls (main_loop E n s))" by (rule main_loop_complete)
qed

theorem readings_complete_witness:
  "read_enviro_values quiet_env (state_at 0 0) =
     (Inr enviro_example,
      (state_at 0 0)\<lparr>calls := [Lib Thermal_zone, Lib Bme280_get_temperature, Lib Datetime_now,
         Lib Bme280_get_pressure, Lib Bme280_get_humidity, Lib Gas_read_all]\<rparr>) \<and>
   map fst enviro_example = enviro_fields \<and>
   read_pm_values quiet_env (state_at 0 0) =
     (Inr pm_example, (state_at 0 0)\<lparr>calls := [Lib Datetime_now, Lib Pms5003_read]\<rparr>) \<and>
   map fst pm_example = pm_fields \<and>
   list_all complete_call (calls (state_at 0 0)) \<and>
   list_all complete_call (calls (main_loop quiet_env 3 (state_at 0 0))) \<and>
   list_all complete_call (calls (main_loop no_url_env 3 (startup no_url_env)))"
proof -
  have e: "read_enviro_values quiet_env (state_at 0 0) =
     (Inr enviro_example,
      (state_at 0 0)\<lparr>calls := [Lib Thermal_zone, Lib Bme280_get_temperature, Lib Datetime_now,
         Lib Bme280_get_pressure, Lib Bme280_get_humidity, Lib Gas_read_all]\<rparr>)"
    apply (simp add: read_defs act_defs env_defs enviro_example_def comp_factor_def)
    apply (simp add: fmt_defs)
    done
  have p: "read_pm_values quiet_env (state_at 0 0) =
     (Inr pm_example, (state_at 0 0)\<lparr>calls := [Lib Datetime_now, Lib Pms5003_read]\<rparr>)"
    apply (simp add: read_defs act_defs env_defs pm_example_def store_pm_def)
    apply (simp add: fmt_defs)
    done
  have c: "list_all complete_call (calls (state_at 0 0))" by (simp add: env_defs)
  show ?thesis
    using e p c
      readings_complete [of quiet_env "state_at 0 0" enviro_example
        "(state_at 0 0)\<lparr>calls := [Lib Thermal_zone, Lib Bme280_get_temperature, Lib Datetime_now,
         Lib Bme280_get_pressure, Lib Bme280_get_humidity, Lib Gas_read_all]\<rparr>" 3]
      readings_complete [of quiet_env "state_at 0 0" pm_example
        "(state_at 0 0)\<lparr>calls := [Lib Datetime_now, Lib Pms5003_read]\<rparr>" 3]
      readings_complete [of no_url_env _ _ _ 3]
    by simp
qed

section \<open>The handler of the loop\<close>

text \<open>
  The exceptions of the loop body are those of the library calls, a \<^verbatim>\<open>KeyError\<close> of a
  reading and the \<^verbatim>\<open>TypeError\<close> of an absent \<^verbatim>\<open>API_URL\<close>; the last two derive from
  \<^verbatim>\<open>Exception\<close>. So when the libraries raise only exceptions that derive from
  \<^verbatim>\<open>Exception\<close>, so does the loop body, and no iteration ends the loop.
\<close>

lemma raises_bind:
  assumes "raises P m" and "\<And>a. raises P (f a)"
  shows "raises P (bind_exn m f)"
  unfolding raises_def
proof (intro allI impI)
  fix s e s'
  assume b: "bind_exn m f s = (Inl e, s')"
  obtain r s1 where ms: "m s = (r, s1)" by (cases "m s")
  show "P e"
  proof (cases r)
    case (Inl e1)
    with ms b have "m s = (Inl e, s')" by (simp add: bind_exn_def)
    with assms(1) show ?thesis unfolding raises_def by blast
  next
    case (Inr a)
    with ms b have "f a s1 = (Inl e, s')" by (simp add: bind_exn_def)
    with assms(2) [of a] show ?thesis unfolding raises_def by blast
  qed
qed

lemma raises_lib_call: "(\<And>k e. f k = Inl e \<Longrightarrow> P e) \<Longrightarrow> raises P (lib_call l f)"
  by (auto simp: raises_def lib_call_def)

lemma raises_lib_total: "raises P (lib_total l f)"
  by (simp add: raises_def lib_total_def)

lemma raises_logging: "raises P (logging lv m)"
  by (simp add: raises_def logging_def)

lemma raises_return: "raises P (return_val a)"
  by (simp add: raises_def return_val_def)

lemma raises_assign: "raises P (assign f)"
  by (simp add: raises_def assign_def)

lemma raises_raise: "P e \<Longrightarrow> raises P (raise_exn e)"
  by (simp add: raises_def raise_exn_def)

lemmas raises_intros = raises_bind raises_lib_total raises_logging raises_return raises_assign

lemma raises_read_enviro_values:
  assumes "benign E"
  shows "raises is_Exception (read_enviro_values E)"
  unfolding read_enviro_values_def get_cpu_temperature_def Let_def
  using assms
  by (intro raises_intros raises_lib_call) (auto simp: benign_def)

lemma raises_read_pm_values:
  assumes "benign E"
  shows "raises is_Exception (read_pm_values E)"
  using assms
  by (auto simp: raises_def benign_def read_pm_values_def act_defs split: sum.splits if_splits)

lemma raises_read_and_time:
  assumes "benign E"
  shows "raises is_Exception (read_and_time E)"
  unfolding read_and_time_def
  by (intro raises_intros raises_read_enviro_values raises_read_pm_values assms)

lemma raises_dict_get: "raises is_Exception (dict_get values k)"
  by (simp add: dict_get_def raises_raise raises_return split: option.splits)

lemma raises_api_path: "raises is_Exception (api_path E p)"
  by (simp add: api_path_def raises_raise raises_return split: option.splits)

lemma raises_post:
  assumes "benign E"
  shows "raises is_Exception (post E r)"
  using assms by (auto simp: raises_def post_def benign_def)

lemma raises_pm_request:
  assumes "benign E"
  shows "raises is_Exception (pm_request E values)"
  unfolding pm_request_def
  by (intro raises_bind raises_dict_get raises_api_path raises_post assms)

lemma raises_enviro_request:
  assumes "benign E"
  shows "raises is_Exception (enviro_request E values)"
  unfolding enviro_request_def
  by (intro raises_bind raises_dict_get raises_api_path raises_post assms)

lemma raises_send_data:
  assumes "raises P req"
  shows "raises P (send_data req a b c d)"
  unfolding raises_def
proof (intro allI impI)
  fix s e s'
  assume "send_data req a b c d s = (Inl e, s')"
  then have "req s = (Inl e, s')" by (blast dest: send_data_raises)
  with assms show "P e" unfolding raises_def by blast
qed

lemma raises_send_pm_data:
  assumes "benign E"
  shows "raises is_Exception (send_pm_data E values)"
  using raises_send_data [OF raises_pm_request [OF assms]]
  unfolding raises_def send_pm_data_def by blast

lemma raises_send_enviro_data:
  assumes "benign E"
  shows "raises is_Exception (send_enviro_data E values)"
  using raises_send_data [OF raises_enviro_request [OF assms]]
  unfolding raises_def send_enviro_data_def by blast

lemma raises_air_quality_step:
  assumes "benign E"
  shows "raises is_Exception (air_quality_step E pv)"
proof -
  have "raises is_Exception
     (bind_exn (logging INFO (Dict pv)) (\<lambda>_.
        bind_exn (lib_total Time_time (time_time E)) (\<lambda>t.
        bind_exn (assign (\<lambda>s. s\<lparr>update_time := t\<rparr>)) (\<lambda>_.
        bind_exn (send_pm_data E pv) (\<lambda>sent.
        if sent then logging INFO (Str ''API pm Response: OK'')
        else logging WARNING (Str ''API pm Response: Failed''))))))"
    by (intro raises_intros raises_send_pm_data assms) (simp add: raises_logging)
  then show ?thesis
    unfolding raises_def air_quality_step_def by (auto split: if_splits)
qed

lemma raises_enviro_step:
  assumes "benign E"
  shows "raises is_Exception (enviro_step E ev)"
proof -
  have "raises is_Exception
     (bind_exn (logging INFO (Dict ev)) (\<lambda>_.
        bind_exn (lib_total Time_time (time_time E)) (\<lambda>t.
        bind_exn (assign (\<lambda>s. s\<lparr>update_time2 := t\<rparr>)) (\<lambda>_.
        bind_exn (send_enviro_data E ev) (\<lambda>sent.
        if sent then logging INFO (Str ''API enviro Response: OK'')
        else logging WARNING (Str ''API enviro Response: Failed''))))))"
    by (intro raises_intros raises_send_enviro_data assms) (simp add: raises_logging)
  then show ?thesis
    unfolding raises_def enviro_step_def by (auto split: if_splits)
qed

lemma raises_loop_body:
  assumes "benign E"
  shows "raises is_Exception (loop_body E)"
  unfolding loop_body_def
  by (intro raises_bind raises_read_and_time assms)
     (auto intro!: raises_bind raises_air_quality_step raises_enviro_step assms)

lemma benign_never_stops: "benign E \<Longrightarrow> \<not> stops E s"
  using raises_loop_body [of E]
  by (cases "loop_body E s") (auto simp: raises_def stops_def split: sum.splits)

lemma benign_running: "benign E \<Longrightarrow> running E n s"
  by (induction n arbitrary: s) (simp_all add: benign_never_stops)

lemma loop_body_first_call:
  "\<exists>evs. calls (snd (loop_body E s)) = calls s @ Lib Thermal_zone # evs"
proof (cases "read_and_time E s")
  case (Pair r s1)
  from read_and_time_first_call [of E s] Pair obtain evs0 where
    c0: "calls s1 = calls s @ Lib Thermal_zone # evs0" by auto
  show ?thesis
  proof (cases r)
    case (Inl e)
    with Pair have "loop_body E s = (Inl e, s1)" by (simp add: loop_body_def bind_exn_def)
    with c0 show ?thesis by simp
  next
    case (Inr p)
    obtain ev pv where p: "p = (ev, pv)" by (cases p)
    obtain ra s2 where a: "air_quality_step E pv s1 = (ra, s2)"
      by (cases "air_quality_step E pv s1")
    from air_quality_step_effect [of E pv s1] a obtain evs2 where
      c2: "calls s2 = calls s1 @ evs2" by auto
    obtain re s3 where b: "enviro_step E ev s2 = (re, s3)"
      by (cases "enviro_step E ev s2")
    from enviro_step_effect [of E ev s2] b obtain evs3 where
      c3: "calls s3 = calls s2 @ evs3" by auto
    have "snd (loop_body E s) = (case ra of Inl e \<Rightarrow> s2 | Inr u \<Rightarrow> s3)"
      using Pair Inr p a b by (simp add: loop_body_def bind_exn_def split: sum.splits)
    with c0 c2 c3 show ?thesis by (cases ra) auto
  qed
qed

lemma iteration_first_call:
  "\<exists>evs. calls (iteration E s) = calls s @ Lib Thermal_zone # evs"
proof -
  obtain r s' where lb: "loop_body E s = (r, s')" by (cases "loop_body E s")
  from loop_body_first_call [of E s] lb obtain evs where
    "calls s' = calls s @ Lib Thermal_zone # evs" by auto
  with lb show ?thesis
    by (cases r) (auto simp: iteration_def emit_def)
qed

text \<open>
  Claim C7, as stated, fails. \<^verbatim>\<open>except Exception\<close> does not catch a \<^verbatim>\<open>KeyboardInterrupt\<close>.
  When one is raised while the particulate sensor is read, it leaves the loop body, the
  handler logs no warning, and the loop ends with that iteration: no further iteration
  is made.
\<close>

theorem loop_level_handler_counterexample:
  "loop_body interrupted_env (state_at 0 0) =
     (Inl (KeyboardInterrupt ''''),
      (state_at 0 0)\<lparr>calls := [Lib Thermal_zone, Lib Bme280_get_temperature, Lib Datetime_now,
         Lib Bme280_get_pressure, Lib Bme280_get_humidity, Lib Gas_read_all,
         Lib Datetime_now, Lib Pms5003_read]\<rparr>) \<and>
   iteration interrupted_env (state_at 0 0) =
     (state_at 0 0)\<lparr>calls := [Lib Thermal_zone, Lib Bme280_get_temperature, Lib Datetime_now,
         Lib Bme280_get_pressure, Lib Bme280_get_humidity, Lib Gas_read_all,
         Lib Datetime_now, Lib Pms5003_read]\<rparr> \<and>
   \<not> list_ex is_warning (calls (iteration interrupted_env (state_at 0 0))) \<and>
   stops interrupted_env (state_at 0 0) \<and>
   main_loop interrupted_env 5 (state_at 0 0) = iteration interrupted_env (state_at 0 0) \<and>
   \<not> running interrupted_env 1 (state_at 0 0)"
proof -
  have b: "loop_body interrupted_env (state_at 0 0) =
     (Inl (KeyboardInterrupt ''''),
      (state_at 0 0)\<lparr>calls := [Lib Thermal_zone, Lib Bme280_get_temperature, Lib Datetime_now,
         Lib Bme280_get_pressure, Lib Bme280_get_humidity, Lib Gas_read_all,
         Lib Datetime_now, Lib Pms5003_read]\<rparr>)"
    by (simp add: loop_body_def read_defs act_defs env_defs)
  have st: "stops interrupted_env (state_at 0 0)"
    by (simp add: stops_def b)
  have it: "iteration interrupted_env (state_at 0 0) =
     (state_at 0 0)\<lparr>calls := [Lib Thermal_zone, Lib Bme280_get_temperature, Lib Datetime_now,
         Lib Bme280_get_pressure, Lib Bme280_get_humidity, Lib Gas_read_all,
         Lib Datetime_now, Lib Pms5003_read]\<rparr>"
    by (simp add: iteration_def b)
  have w: "\<not> list_ex is_warning (calls (iteration interrupted_env (state_at 0 0)))"
    by (simp add: it)
  have m: "main_loop interrupted_env 5 (state_at 0 0) = iteration interrupted_env (state_at 0 0)"
    using st by (simp add: numeral_eq_Suc)
  have r: "\<not> running interrupted_env 1 (state_at 0 0)"
    using st by simp
  from b it w st m r show ?thesis by blast
qed

text \<open>
  Claim C7, amended. An exception that leaves the loop body and derives from
  \<^verbatim>\<open>Exception\<close> is caught by the handler of the iteration: the loop does not stop, the
  only thing the handler does is to log one warning with the text of the exception, and
  the next iteration starts at once, its first call (the read of the CPU temperature)
  coming right after the warning. An exception that does not derive from \<^verbatim>\<open>Exception\<close>
  (\<^verbatim>\<open>KeyboardInterrupt\<close>, \<^verbatim>\<open>SystemExit\<close>) is not caught: nothing is logged and the loop
  stops there. When the libraries raise only exceptions that derive from \<^verbatim>\<open>Exception\<close>,
  every number \<open>n\<close> of iterations goes through, and they make at least \<open>n\<close> calls.
\<close>

theorem loop_level_handler:
  "(loop_body E s = (Inl e, s') \<and> is_Exception e \<longrightarrow>
      \<not> stops E s \<and>
      iteration E s = emit (Logging WARNING (Str (''Main Loop Exception: '' @ exn_str e))) s' \<and>
      (\<exists>evs. calls (iteration E (iteration E s)) =
               calls s' @ Logging WARNING (Str (''Main Loop Exception: '' @ exn_str e))
                 # Lib Thermal_zone # evs)) \<and>
   (loop_body E s = (Inl e, s') \<and> \<not> is_Exception e \<longrightarrow>
      stops E s \<and> iteration E s = s' \<and> \<not> running E (Suc n) s) \<and>
   (benign E \<longrightarrow> running E n s \<and> length (calls s) + n \<le> length (calls (main_loop E n s)))"
proof (intro conjI impI)
  assume a: "loop_body E s = (Inl e, s') \<and> is_Exception e"
  then show "\<not> stops E s" by (simp add: stops_def)
  from a show it: "iteration E s =
      emit (Logging WARNING (Str (''Main Loop Exception: '' @ exn_str e))) s'"
    by (simp add: iteration_def)
  from iteration_first_call [of E "iteration E s"]
  show "\<exists>evs. calls (iteration E (iteration E s)) =
               calls s' @ Logging WARNING (Str (''Main Loop Exception: '' @ exn_str e))
                 # Lib Thermal_zone # evs"
    unfolding it by (auto simp: emit_def)
next
  assume a: "loop_body E s = (Inl e, s') \<and> \<not> is_Exception e"
  then show "stops E s" by (simp add: stops_def)
  then show "\<not> running E (Suc n) s" by simp
  from a show "iteration E s = s'" by (simp add: iteration_def)
next
  assume "benign E"
  then show "running E n s" by (rule benign_running)
  then show "length (calls s) + n \<le> length (calls (main_loop E n s))"
    by (rule main_loop_progress)
qed

theorem loop_level_handler_witness:
  "loop_body broken_env (state_at 0 0) =
     (Inl (OtherException ''serial port closed''),
      (state_at 0 0)\<lparr>calls := [Lib Thermal_zone, Lib Bme280_get_temperature, Lib Datetime_now,
         Lib Bme280_get_pressure, Lib Bme280_get_humidity, Lib Gas_read_all,
         Lib Datetime_now, Lib Pms5003_read]\<rparr>) \<and>
   is_Exception (OtherException ''serial port closed'') \<and>
   \<not> stops broken_env (state_at 0 0) \<and>
   iteration broken_env (state_at 0 0) =
     (state_at 0 0)\<lparr>calls := [Lib Thermal_zone, Lib Bme280_get_temperature, Lib Datetime_now,
         Lib Bme280_get_pressure, Lib Bme280_get_humidity, Lib Gas_read_all,
         Lib Datetime_now, Lib Pms5003_read,
         Logging WARNING (Str ''Main Loop Exception: serial port closed'')]\<rparr> \<and>
   take 10 (calls (iteration broken_env (iteration broken_env (state_at 0 0)))) =
     [Lib Thermal_zone, Lib Bme280_get_temperature, Lib Datetime_now,
      Lib Bme280_get_pressure, Lib Bme280_get_humidity, Lib Gas_read_all,
      Lib Datetime_now, Lib Pms5003_read,
      Logging WARNING (Str ''Main Loop Exception: serial port closed''), Lib Thermal_zone] \<and>
   loop_body interrupted_env (state_at 0 0) =
     (Inl (KeyboardInterrupt ''''),
      (state_at 0 0)\<lparr>calls := [Lib Thermal_zone, Lib Bme280_get_temperature, Lib Datetime_now,
         Lib Bme280_get_pressure, Lib Bme280_get_humidity, Lib Gas_read_all,
         Lib Datetime_now, Lib Pms5003_read]\<rparr>) \<and>
   \<not> is_Exception (KeyboardInterrupt '''') \<and>
   stops interrupted_env (state_at 0 0) \<and>
   iteration interrupted_env (state_at 0 0) =
     (state_at 0 0)\<lparr>calls := [Lib Thermal_zone, Lib Bme280_get_temperature, Lib Datetime_now,
         Lib Bme280_get_pressure, Lib Bme280_get_humidity, Lib Gas_read_all,
         Lib Datetime_now, Lib Pms5003_read]\<rparr> \<and>
   \<not> running interrupted_env 3 (state_at 0 0) \<and>
   running broken_env 5 (state_at 0 0) \<and>
   5 \<le> length (calls (main_loop broken_env 5 (state_at 0 0)))"
proof -
  have b: "loop_body broken_env (state_at 0 0) =
     (Inl (OtherException ''serial port closed''),
      (state_at 0 0)\<lparr>calls := [Lib Thermal_zone, Lib Bme280_get_temperature, Lib Datetime_now,
         Lib Bme280_get_pressure, Lib Bme280_get_humidity, Lib Gas_read_all,
         Lib Datetime_now, Lib Pms5003_read]\<rparr>)"
    by (simp add: loop_body_def read_defs act_defs env_defs)
  have k: "loop_body interrupted_env (state_at 0 0) =
     (Inl (KeyboardInterrupt ''''),
      (state_at 0 0)\<lparr>calls := [Lib Thermal_zone, Lib Bme280_get_temperature, Lib Datetime_now,
         Lib Bme280_get_pressure, Lib Bme280_get_humidity, Lib Gas_read_all,
         Lib Datetime_now, Lib Pms5003_read]\<rparr>)"
    by (simp add: loop_body_def read_defs act_defs env_defs)
  have e1: "is_Exception (OtherException ''serial port closed'')" by simp
  have e2: "\<not> is_Exception (KeyboardInterrupt '''')" by simp
  have g: "benign broken_env" by (simp add: benign_def env_defs)
  note t1 = loop_level_handler [of broken_env "state_at 0 0"
      "OtherException ''serial port closed''"
      "(state_at 0 0)\<lparr>calls := [Lib Thermal_zone, Lib Bme280_get_temperature, Lib Datetime_now,
         Lib Bme280_get_pressure, Lib Bme280_get_humidity, Lib Gas_read_all,
         Lib Datetime_now, Lib Pms5003_read]\<rparr>" 5]
  note t2 = loop_level_handler [of interrupted_env "state_at 0 0"
      "KeyboardInterrupt ''''"
      "(state_at 0 0)\<lparr>calls := [Lib Thermal_zone, Lib Bme280_get_temperature, Lib Datetime_now,
         Lib Bme280_get_pressure, Lib Bme280_get_humidity, Lib Gas_read_all,
         Lib Datetime_now, Lib Pms5003_read]\<rparr>" 2]
  from t1 b e1 have ns: "\<not> stops broken_env (state_at 0 0)" by blast
  from t1 b e1 have it0: "iteration broken_env (state_at 0 0) =
     emit (Logging WARNING (Str (''Main Loop Exception: ''
        @ exn_str (OtherException ''serial port closed''))))
      ((state_at 0 0)\<lparr>calls := [Lib Thermal_zone, Lib Bme280_get_temperature, Lib Datetime_now,
         Lib Bme280_get_pressure, Lib Bme280_get_humidity, Lib Gas_read_all,
         Lib Datetime_now, Lib Pms5003_read]\<rparr>)" by blast
  then have it: "iteration broken_env (state_at 0 0) =
     (state_at 0 0)\<lparr>calls := [Lib Thermal_zone, Lib Bme280_get_temperature, Lib Datetime_now,
         Lib Bme280_get_pressure, Lib Bme280_get_humidity, Lib Gas_read_all,
         Lib Datetime_now, Lib Pms5003_read,
         Logging WARNING (Str ''Main Loop Exception: serial port closed'')]\<rparr>"
    by (simp add: emit_def env_defs)
  from t1 b e1 obtain evs where
    "calls (iteration broken_env (iteration broken_env (state_at 0 0))) =
       calls ((state_at 0 0)\<lparr>calls := [Lib Thermal_zone, Lib Bme280_get_temperature,
         Lib Datetime_now, Lib Bme280_get_pressure, Lib Bme280_get_humidity, Lib Gas_read_all,
         Lib Datetime_now, Lib Pms5003_read]\<rparr>)
       @ Logging WARNING (Str (''Main Loop Exception: ''
            @ exn_str (OtherException ''serial port closed'')))
       # Lib Thermal_zone # evs" by blast
  then have nx: "take 10 (calls (iteration broken_env (iteration broken_env (state_at 0 0)))) =
     [Lib Thermal_zone, Lib Bme280_get_temperature, Lib Datetime_now,
      Lib Bme280_get_pressure, Lib Bme280_get_humidity, Lib Gas_read_all,
      Lib Datetime_now, Lib Pms5003_read,
      Logging WARNING (Str ''Main Loop Exception: serial port closed''), Lib Thermal_zone]"
    by simp
  from t2 k e2 have st: "stops interrupted_env (state_at 0 0)" by blast
  from t2 k e2 have ik: "iteration interrupted_env (state_at 0 0) =
     (state_at 0 0)\<lparr>calls := [Lib Thermal_zone, Lib Bme280_get_temperature, Lib Datetime_now,
         Lib Bme280_get_pressure, Lib Bme280_get_humidity, Lib Gas_read_all,
         Lib Datetime_now, Lib Pms5003_read]\<rparr>" by blast
  from t2 k e2 have nr: "\<not> running interrupted_env 3 (state_at 0 0)"
    by (simp add: numeral_3_eq_3)
  from t1 g have r5: "running broken_env 5 (state_at 0 0)" by blast
  from t1 g have "length (calls (state_at 0 0)) + 5
      \<le> length (calls (main_loop broken_env 5 (state_at 0 0)))" by blast
  then have l5: "5 \<le> length (calls (main_loop broken_env 5 (state_at 0 0)))"
    by (simp add: env_defs)
  from b e1 ns it nx k e2 st ik nr r5 l5 show ?thesis by blast
qed

section \<open>The timer is reset before the send\<close>

text \<open>
  Claim C10. Each block takes its clock reading and assigns its timer before it calls the
  send function. If the send raises, the block ends with the timer at that reading, the
  handler leaves both timers alone, and so the iteration ends with the timer reset. From
  any state, as long as no further send of that kind is made the timer keeps its value,
  and the next send of that kind is made only in an iteration whose clock reading exceeds
  that value by more than the interval.
\<close>

theorem timer_reset_before_send:
  "(300 < time_since_update s \<longrightarrow>
      air_quality_step E pv s =
        bind_exn (send_pm_data E pv) (\<lambda>sent.
           if sent then logging INFO (Str ''API pm Response: OK'')
           else logging WARNING (Str ''API pm Response: Failed''))
          (s\<lparr>calls := calls s @ [Logging INFO (Dict pv), Lib Time_time],
             update_time := time_time E (n_lib Time_time s)\<rparr>)) \<and>
   (900 < time_since_update2 s \<longrightarrow>
      enviro_step E ev s =
        bind_exn (send_enviro_data E ev) (\<lambda>sent.
           if sent then logging INFO (Str ''API enviro Response: OK'')
           else logging WARNING (Str ''API enviro Response: Failed''))
          (s\<lparr>calls := calls s @ [Logging INFO (Dict ev), Lib Time_time],
             update_time2 := time_time E (n_lib Time_time s)\<rparr>)) \<and>
   (300 < time_since_update s \<and> fst (air_quality_step E pv s) = Inl e \<longrightarrow>
      update_time (snd (air_quality_step E pv s)) = time_time E (n_lib Time_time s)) \<and>
   (900 < time_since_update2 s \<and> fst (enviro_step E ev s) = Inl e \<longrightarrow>
      update_time2 (snd (enviro_step E ev s)) = time_time E (n_lib Time_time s)) \<and>
   (loop_body E s = (Inl e, s') \<longrightarrow>
      update_time (iteration E s) = update_time s' \<and>
      update_time2 (iteration E s) = update_time2 s') \<and>
   (pm_step_raises E s \<longrightarrow>
      update_time (iteration E s) = time_time E (n_lib Time_time s + 2)) \<and>
   (n_pm_sends (main_loop E n s) = n_pm_sends s \<and> pm_send_occurs E (main_loop E n s) \<longrightarrow>
      300 < float_sub E (time_time E (n_lib Time_time (main_loop E n s))) (update_time s)) \<and>
   (n_enviro_sends (main_loop E n s) = n_enviro_sends s \<and>
    enviro_send_occurs E (main_loop E n s) \<longrightarrow>
      900 < float_sub E (time_time E (Suc (n_lib Time_time (main_loop E n s)))) (update_time2 s))"
proof (intro conjI impI)
  assume "300 < time_since_update s"
  then show "air_quality_step E pv s =
        bind_exn (send_pm_data E pv) (\<lambda>sent.
           if sent then logging INFO (Str ''API pm Response: OK'')
           else logging WARNING (Str ''API pm Response: Failed''))
          (s\<lparr>calls := calls s @ [Logging INFO (Dict pv), Lib Time_time],
             update_time := time_time E (n_lib Time_time s)\<rparr>)"
    by (rule air_quality_step_due)
next
  assume "900 < time_since_update2 s"
  then show "enviro_step E ev s =
        bind_exn (send_enviro_data E ev) (\<lambda>sent.
           if sent then logging INFO (Str ''API enviro Response: OK'')
           else logging WARNING (Str ''API enviro Response: Failed''))
          (s\<lparr>calls := calls s @ [Logging INFO (Dict ev), Lib Time_time],
             update_time2 := time_time E (n_lib Time_time s)\<rparr>)"
    by (rule enviro_step_due)
next
  assume "300 < time_since_update s \<and> fst (air_quality_step E pv s) = Inl e"
  with air_quality_step_effect [of E pv s]
  show "update_time (snd (air_quality_step E pv s)) = time_time E (n_lib Time_time s)"
    by (auto simp: vars_def)
next
  assume "900 < time_since_update2 s \<and> fst (enviro_step E ev s) = Inl e"
  with enviro_step_effect [of E ev s]
  show "update_time2 (snd (enviro_step E ev s)) = time_time E (n_lib Time_time s)"
    by (auto simp: vars_def)
next
  assume "loop_body E s = (Inl e, s')"
  then show "update_time (iteration E s) = update_time s'"
    and "update_time2 (iteration E s) = update_time2 s'"
    by (simp_all add: iteration_def emit_def)
next
  assume r: "pm_step_raises E s"
  from pm_step_raises_due [OF r] obtain ev' pv' s1 where
    rt: "read_and_time E s = (Inr (ev', pv'), s1)" and d: "300 < elapsed_pm E s"
    by (cases "read_and_time E s"; cases "fst (read_and_time E s)") (auto simp: reads_return_def)
  from iteration_after_reads(3) [OF rt] d
  show "update_time (iteration E s) = time_time E (n_lib Time_time s + 2)" by simp
next
  assume a: "n_pm_sends (main_loop E n s) = n_pm_sends s \<and> pm_send_occurs E (main_loop E n s)"
  then have "update_time (main_loop E n s) = update_time s"
    by (simp add: pm_timer_until_next_send)
  moreover from a have "300 < elapsed_pm E (main_loop E n s)" by (simp add: pm_send_occurs_iff)
  ultimately
  show "300 < float_sub E (time_time E (n_lib Time_time (main_loop E n s))) (update_time s)"
    by (simp add: elapsed_pm_def)
next
  assume a: "n_enviro_sends (main_loop E n s) = n_enviro_sends s \<and>
    enviro_send_occurs E (main_loop E n s)"
  then have "update_time2 (main_loop E n s) = update_time2 s"
    by (simp add: enviro_timer_until_next_send)
  moreover from a have "900 < elapsed_enviro E (main_loop E n s)"
    by (simp add: enviro_send_occurs_iff)
  ultimately
  show "900 < float_sub E (time_time E (Suc (n_lib Time_time (main_loop E n s)))) (update_time2 s)"
    by (simp add: elapsed_enviro_def)
qed

theorem timer_reset_before_send_witness:
  "300 < time_since_update due_state \<and>
   fst (air_quality_step no_url_env pm_example due_state) = Inl (TypeError none_plus_str) \<and>
   update_time (snd (air_quality_step no_url_env pm_example due_state)) = 1000 \<and>
   900 < time_since_update2 due_state \<and>
   fst (enviro_step no_url_env enviro_example due_state) = Inl (TypeError none_plus_str) \<and>
   update_time2 (snd (enviro_step no_url_env enviro_example due_state)) = 1000 \<and>
   pm_step_raises no_url_env (state_at 0 0) \<and>
   update_time (iteration no_url_env (state_at 0 0)) = 1000 \<and>
   loop_body no_url_env (state_at 0 0) =
     (Inl (TypeError none_plus_str),
      (state_at 0 0)\<lparr>time_since_update := 1000, time_since_update2 := 1000,
         update_time := 1000,
         calls := [Lib Thermal_zone, Lib Bme280_get_temperature, Lib Datetime_now,
           Lib Bme280_get_pressure, Lib Bme280_get_humidity, Lib Gas_read_all,
           Lib Datetime_now, Lib Pms5003_read, Lib Time_time, Lib Time_time,
           Logging INFO (Dict pm_example), Lib Time_time, Send_pm_data pm_example]\<rparr>) \<and>
   update_time2 (iteration no_url_env (state_at 0 0)) = 0 \<and>
   n_pm_sends (main_loop ticking_env 1 (state_at 0 0)) = n_pm_sends (state_at 0 0) \<and>
   pm_send_occurs ticking_env (main_loop ticking_env 1 (state_at 0 0)) \<and>
   300 < float_sub ticking_env
           (time_time ticking_env (n_lib Time_time (main_loop ticking_env 1 (state_at 0 0))))
           (update_time (state_at 0 0)) \<and>
   enviro_send_occurs quiet_env (main_loop quiet_env 0 (state_at 0 0)) \<and>
   900 < float_sub quiet_env
           (time_time quiet_env (Suc (n_lib Time_time (main_loop quiet_env 0 (state_at 0 0)))))
           (update_time2 (state_at 0 0))"
proof -
  have d: "300 < time_since_update due_state" "900 < time_since_update2 due_state"
    by (simp_all add: env_defs)
  have u: "API_URL no_url_env = None" by (simp add: env_defs)
  have a: "fst (air_quality_step no_url_env pm_example due_state) = Inl (TypeError none_plus_str)"
    "fst (enviro_step no_url_env enviro_example due_state) = Inl (TypeError none_plus_str)"
    using d u
    by (simp_all add: air_quality_step_due enviro_step_due send_pm_data_no_url
        send_enviro_data_no_url bind_exn_def)
  have r: "reads_return no_url_env (state_at 0 0)" "reads_return quiet_env (state_at 0 0)"
    by (simp_all add: read_defs act_defs env_defs)
  have e: "300 < elapsed_pm no_url_env (state_at 0 0)"
    "900 < elapsed_enviro quiet_env (state_at 0 0)"
    by (simp_all add: elapsed_pm_def elapsed_enviro_def n_lib_def env_defs)
  have p: "pm_step_raises no_url_env (state_at 0 0)"
    using u r(1) e(1) by (rule no_url_pm_step_raises)
  have it: "iteration ticking_env (state_at 0 0) =
    (state_at 0 0)\<lparr>time_since_update := 0, time_since_update2 := 200,
      calls := [Lib Thermal_zone, Lib Bme280_get_temperature, Lib Datetime_now,
         Lib Bme280_get_pressure, Lib Bme280_get_humidity, Lib Gas_read_all,
         Lib Datetime_now, Lib Pms5003_read, Lib Time_time, Lib Time_time]\<rparr>"
    by (simp add: iteration_def loop_body_def air_quality_step_def enviro_step_def
        read_defs act_defs env_defs ticking_env_def)
  have m: "main_loop ticking_env 1 (state_at 0 0) = iteration ticking_env (state_at 0 0)"
    by simp
  have n: "n_pm_sends (main_loop ticking_env 1 (state_at 0 0)) = n_pm_sends (state_at 0 0)"
    unfolding m it by (simp add: n_pm_sends_def state_at_def)
  have r2: "reads_return ticking_env (iteration ticking_env (state_at 0 0))"
    unfolding it by (simp add: read_defs act_defs env_defs ticking_env_def)
  have e2: "300 < elapsed_pm ticking_env (iteration ticking_env (state_at 0 0))"
    unfolding it by (simp add: elapsed_pm_def n_lib_def env_defs ticking_env_def)
  have s: "pm_send_occurs ticking_env (main_loop ticking_env 1 (state_at 0 0))"
    unfolding m using r2 e2 by (simp add: pm_send_occurs_iff)
  have q: "\<not> pm_step_raises quiet_env (state_at 0 0)"
    by (rule pm_step_returns) (simp_all add: env_defs)
  have s2: "enviro_send_occurs quiet_env (main_loop quiet_env 0 (state_at 0 0))"
    using r(2) e(2) q by (simp add: enviro_send_occurs_iff)
  note t1 = timer_reset_before_send [of due_state no_url_env pm_example enviro_example
        "TypeError none_plus_str"]
  note t2 = timer_reset_before_send [of "state_at 0 0" no_url_env]
  note t3 = timer_reset_before_send [of "state_at 0 0" ticking_env _ _ _ _ 1]
  note t4 = timer_reset_before_send [of "state_at 0 0" quiet_env _ _ _ _ 0]
  have k: "time_time no_url_env (n_lib Time_time due_state) = 1000"
    "time_time no_url_env (n_lib Time_time (state_at 0 0) + 2) = 1000"
    by (simp_all add: env_defs)
  from t1 d a have "update_time (snd (air_quality_step no_url_env pm_example due_state)) =
      time_time no_url_env (n_lib Time_time due_state)"
    and "update_time2 (snd (enviro_step no_url_env enviro_example due_state)) =
      time_time no_url_env (n_lib Time_time due_state)"
    by blast+
  with k have c1: "update_time (snd (air_quality_step no_url_env pm_example due_state)) = 1000"
    "update_time2 (snd (enviro_step no_url_env enviro_example due_state)) = 1000"
    by simp_all
  from t2 p have "update_time (iteration no_url_env (state_at 0 0)) =
      time_time no_url_env (n_lib Time_time (state_at 0 0) + 2)"
    by blast
  with k have c2: "update_time (iteration no_url_env (state_at 0 0)) = 1000"
    by simp
  from t3 n s have c3: "300 < float_sub ticking_env
           (time_time ticking_env (n_lib Time_time (main_loop ticking_env 1 (state_at 0 0))))
           (update_time (state_at 0 0))"
    by blast
  have "n_enviro_sends (main_loop quiet_env 0 (state_at 0 0)) = n_enviro_sends (state_at 0 0)"
    by simp
  with t4 s2 have c4: "900 < float_sub quiet_env
           (time_time quiet_env (Suc (n_lib Time_time (main_loop quiet_env 0 (state_at 0 0)))))
           (update_time2 (state_at 0 0))"
    by blast
  have b3: "loop_body no_url_env (state_at 0 0) =
     (Inl (TypeError none_plus_str),
      (state_at 0 0)\<lparr>time_since_update := 1000, time_since_update2 := 1000,
         update_time := 1000,
         calls := [Lib Thermal_zone, Lib Bme280_get_temperature, Lib Datetime_now,
           Lib Bme280_get_pressure, Lib Bme280_get_humidity, Lib Gas_read_all,
           Lib Datetime_now, Lib Pms5003_read, Lib Time_time, Lib Time_time,
           Logging INFO (Dict pm_example), Lib Time_time, Send_pm_data pm_example]\<rparr>)"
    apply (simp add: loop_body_def air_quality_step_def read_defs act_defs env_defs
      send_pm_data_def send_data_def pm_request_def api_path_def store_pm_def pm_example_def)
    apply (simp add: fmt_defs)
    done
  from t2 b3 have "update_time2 (iteration no_url_env (state_at 0 0)) =
      update_time2 ((state_at 0 0)\<lparr>time_since_update := 1000, time_since_update2 := 1000,
         update_time := 1000,
         calls := [Lib Thermal_zone, Lib Bme280_get_temperature, Lib Datetime_now,
           Lib Bme280_get_pressure, Lib Bme280_get_humidity, Lib Gas_read_all,
           Lib Datetime_now, Lib Pms5003_read, Lib Time_time, Lib Time_time,
           Logging INFO (Dict pm_example), Lib Time_time, Send_pm_data pm_example]\<rparr>)"
    by blast
  then have c5: "update_time2 (iteration no_url_env (state_at 0 0)) = 0"
    by (simp add: state_at_def)
  from d a p n s s2 c1 c2 c3 c4 b3 c5 show ?thesis by blast
qed

section \<open>The environmental reading: temperature and gas\<close>




text \<open>
  Claim C8. Each gas field of a reading returned by \<^verbatim>\<open>read_enviro_values\<close> is \<^verbatim>\<open>str\<close> of
  \<^verbatim>\<open>int\<close> of the gas value divided by 1000. \<^verbatim>\<open>int\<close> truncates toward zero: the result
  lies between zero and the quotient, less than one away from it. \<^verbatim>\<open>str\<close> of an integer
  is a minus sign for a negative one followed by the decimal digits of its absolute value.
\<close>

theorem gas_truncated:
  "(read_enviro_values E s = (Inr v, s') \<and> gas_read_all E (n_lib Gas_read_all s) = Inr g \<longrightarrow>
      map_of v ''oxidising'' = Some (str_int (py_int (float_div E (oxidising g) 1000))) \<and>
      map_of v ''reducing'' = Some (str_int (py_int (float_div E (reducing g) 1000))) \<and>
      map_of v ''nh3'' = Some (str_int (py_int (float_div E (nh3 g) 1000)))) \<and>
   (0 \<le> x \<longrightarrow> 0 \<le> py_int x \<and> real_of_int (py_int x) \<le> x \<and> x < real_of_int (py_int x) + 1) \<and>
   (x < 0 \<longrightarrow> py_int x \<le> 0 \<and> x \<le> real_of_int (py_int x) \<and> real_of_int (py_int x) - 1 < x) \<and>
   (\<exists>ds. str_int i = (if i < 0 then ''-'' else '''') @ ds \<and> ds \<noteq> [] \<and>
         list_all is_digit ds \<and> int (nat_of_digits ds) = \<bar>i\<bar>)"
proof (intro conjI)
  show "read_enviro_values E s = (Inr v, s') \<and> gas_read_all E (n_lib Gas_read_all s) = Inr g \<longrightarrow>
      map_of v ''oxidising'' = Some (str_int (py_int (float_div E (oxidising g) 1000))) \<and>
      map_of v ''reducing'' = Some (str_int (py_int (float_div E (reducing g) 1000))) \<and>
      map_of v ''nh3'' = Some (str_int (py_int (float_div E (nh3 g) 1000)))"
  proof
    assume a: "read_enviro_values E s = (Inr v, s') \<and>
      gas_read_all E (n_lib Gas_read_all s) = Inr g"
    with read_enviro_values_returns [of E s v s']
    show "map_of v ''oxidising'' = Some (str_int (py_int (float_div E (oxidising g) 1000))) \<and>
      map_of v ''reducing'' = Some (str_int (py_int (float_div E (reducing g) 1000))) \<and>
      map_of v ''nh3'' = Some (str_int (py_int (float_div E (nh3 g) 1000)))"
      by auto
  qed
next
  from py_int_truncates [of x]
  show "0 \<le> x \<longrightarrow> 0 \<le> py_int x \<and> real_of_int (py_int x) \<le> x \<and> x < real_of_int (py_int x) + 1"
    by blast
next
  from py_int_truncates [of x]
  show "x < 0 \<longrightarrow> py_int x \<le> 0 \<and> x \<le> real_of_int (py_int x) \<and> real_of_int (py_int x) - 1 < x"
    by blast
next
  show "\<exists>ds. str_int i = (if i < 0 then ''-'' else '''') @ ds \<and> ds \<noteq> [] \<and>
         list_all is_digit ds \<and> int (nat_of_digits ds) = \<bar>i\<bar>"
    by (rule str_int_shape)
qed

theorem gas_truncated_witness:
  "read_enviro_values quiet_env (state_at 0 0) =
     (Inr enviro_example,
      (state_at 0 0)\<lparr>calls := [Lib Thermal_zone, Lib Bme280_get_temperature, Lib Datetime_now,
         Lib Bme280_get_pressure, Lib Bme280_get_humidity, Lib Gas_read_all]\<rparr>) \<and>
   gas_read_all quiet_env (n_lib Gas_read_all (state_at 0 0)) =
     Inr \<lparr>oxidising = 12999, reducing = 450500, nh3 = 999\<rparr> \<and>
   map_of enviro_example ''oxidising'' = Some (str_int (py_int (12999 / 1000))) \<and>
   map_of enviro_example ''reducing'' = Some (str_int (py_int (450500 / 1000))) \<and>
   map_of enviro_example ''nh3'' = Some (str_int (py_int (999 / 1000))) \<and>
   str_int (py_int (12999 / 1000)) = ''12'' \<and>
   str_int (py_int (450500 / 1000)) = ''450'' \<and>
   str_int (py_int (999 / 1000)) = ''0'' \<and>
   (0::real) \<le> 12999 / 1000 \<and> real_of_int (py_int (12999 / 1000)) \<le> 12999 / 1000 \<and>
   12999 / 1000 < real_of_int (py_int (12999 / 1000)) + 1 \<and>
   - 19999 / 10000 < (0::real) \<and> py_int (- 19999 / 10000) \<le> 0 \<and>
   - 19999 / 10000 \<le> real_of_int (py_int (- 19999 / 10000)) \<and>
   py_int (- 19999 / 10000) = - 1"
proof -
  have e: "read_enviro_values quiet_env (state_at 0 0) =
     (Inr enviro_example,
      (state_at 0 0)\<lparr>calls := [Lib Thermal_zone, Lib Bme280_get_temperature, Lib Datetime_now,
         Lib Bme280_get_pressure, Lib Bme280_get_humidity, Lib Gas_read_all]\<rparr>)"
    apply (simp add: read_defs act_defs env_defs enviro_example_def comp_factor_def)
    apply (simp add: fmt_defs)
    done
  have g: "gas_read_all quiet_env (n_lib Gas_read_all (state_at 0 0)) =
     Inr \<lparr>oxidising = 12999, reducing = 450500, nh3 = 999\<rparr>"
    by (simp add: env_defs)
  have f: "float_div quiet_env = (\<lambda>a b. a / b)"
    by (simp add: env_defs)
  note w = gas_truncated [where E = quiet_env and s = "state_at 0 0"
      and v = enviro_example and g = "\<lparr>oxidising = 12999, reducing = 450500, nh3 = 999\<rparr>"
      and s' = "(state_at 0 0)\<lparr>calls := [Lib Thermal_zone, Lib Bme280_get_temperature,
         Lib Datetime_now, Lib Bme280_get_pressure, Lib Bme280_get_humidity, Lib Gas_read_all]\<rparr>"]
  from w [where x = 0] e g have
    "map_of enviro_example ''oxidising'' = Some (str_int (py_int (float_div quiet_env
        (oxidising \<lparr>oxidising = 12999, reducing = 450500, nh3 = 999\<rparr>) 1000))) \<and>
     map_of enviro_example ''reducing'' = Some (str_int (py_int (float_div quiet_env
        (reducing \<lparr>oxidising = 12999, reducing = 450500, nh3 = 999\<rparr>) 1000))) \<and>
     map_of enviro_example ''nh3'' = Some (str_int (py_int (float_div quiet_env
        (nh3 \<lparr>oxidising = 12999, reducing = 450500, nh3 = 999\<rparr>) 1000)))"
    by blast
  then have m: "map_of enviro_example ''oxidising'' = Some (str_int (py_int (12999 / 1000)))"
    "map_of enviro_example ''reducing'' = Some (str_int (py_int (450500 / 1000)))"
    "map_of enviro_example ''nh3'' = Some (str_int (py_int (999 / 1000)))"
    by (simp_all only: f gas_data.simps)
  have p: "(0::real) \<le> 12999 / 1000" "- 19999 / 10000 < (0::real)" by simp_all
  from w [where x = "12999 / 1000"] p(1)
  have t1: "real_of_int (py_int (12999 / 1000)) \<le> 12999 / 1000"
    "12999 / 1000 < real_of_int (py_int (12999 / 1000)) + 1" by blast+
  from w [where x = "- 19999 / 10000"] p(2)
  have t2: "py_int (- 19999 / 10000) \<le> 0"
    "- 19999 / 10000 \<le> real_of_int (py_int (- 19999 / 10000))" by blast+
  have v: "str_int (py_int (12999 / 1000)) = ''12''" "str_int (py_int (450500 / 1000)) = ''450''"
    "str_int (py_int (999 / 1000)) = ''0''" "py_int (- 19999 / 10000) = - 1"
    by (simp_all add: fmt_defs)
  from e g m p t1 t2 v show ?thesis by blast
qed

end
